theory Spec2Isabelle
  imports Complex_Main "HOL-Library.Multiset" "HOL-Library.Sublist"
begin

section \<open>Python values used by app.py\<close>

text \<open>
  JSON numbers and the values of Streamlit's number inputs are modelled as exact rationals
  (\<open>rat\<close>); Python's integers as \<open>int\<close>; strings as \<open>string\<close> (ASCII). Exceptions that
  no handler of the source catches are values of \<open>py_error\<close>.
\<close>

datatype py_error = ValueError | IndexError | AttributeError | ZeroDivisionError | StreamlitAPIException

text \<open>\<open>str(n)\<close> for an integer, as the f-strings of the source print it.\<close>

definition digit_char :: "nat \<Rightarrow> char" where
  "digit_char d = ''0123456789'' ! d"

fun str_nat :: "nat \<Rightarrow> string" where
  "str_nat n = (if n < 10 then [digit_char n] else str_nat (n div 10) @ [digit_char (n mod 10)])"

declare str_nat.simps [simp del]

definition str_int :: "int \<Rightarrow> string" where
  "str_int i = (if i < 0 then CHR ''-'' # str_nat (nat (- i)) else str_nat (nat i))"

text \<open>\<open>str.strip()\<close>: whitespace is removed from both ends (the ASCII whitespace characters).\<close>

definition is_space :: "char \<Rightarrow> bool" where
  "is_space c = (c \<in> set [CHR '' '', CHR 0x09, CHR 0x0A, CHR 0x0B, CHR 0x0C, CHR 0x0D,
                             CHR 0x1C, CHR 0x1D, CHR 0x1E, CHR 0x1F])"

definition strip :: "string \<Rightarrow> string" where
  "strip s = rev (dropWhile is_space (rev (dropWhile is_space s)))"

text \<open>\<open>sep.join(parts)\<close>.\<close>

fun join :: "string \<Rightarrow> string list \<Rightarrow> string" where
  "join sep [] = []"
| "join sep [p] = p"
| "join sep (p # q # ps) = p @ sep @ join sep (q # ps)"

section \<open>format_duration\<close>

text \<open>
  \<open>format_duration(seconds)\<close> on an absent value (\<open>None\<close>) or an integer. \<open>divmod\<close> on
  Python integers is floor division and its remainder, as \<open>div\<close> and \<open>mod\<close> on \<open>int\<close> are.
\<close>

definition format_duration :: "int option \<Rightarrow> string" where
  "format_duration seconds =
     (case seconds of
        None \<Rightarrow> ''0s''
      | Some secs \<Rightarrow>
          if secs = 0 then ''0s''
          else
            let minutes0 = secs div 60;
                seconds' = secs mod 60;
                hours = minutes0 div 60;
                minutes = minutes0 mod 60;
                d0 = '''';
                d1 = (if hours > 0 then d0 @ str_int hours @ ''h '' else d0);
                d2 = (if minutes > 0 then d1 @ str_int minutes @ ''m '' else d1);
                d3 = (if seconds' > 0 \<or> d2 = [] then d2 @ str_int seconds' @ ''s'' else d2)
            in strip d3)"

text \<open>
  The format as the specification words it: the hour, minute and second components, each
  left out when it is zero, joined by single spaces; a zero duration is \<open>0s\<close>, and the
  seconds are shown when they are positive or when no larger unit was shown.
\<close>

definition format_duration_spec :: "int \<Rightarrow> string" where
  "format_duration_spec n =
     (if n = 0 then ''0s''
      else
        let h = n div 3600; m = (n div 60) mod 60; s = n mod 60;
            larger = (if h > 0 then [str_int h @ ''h''] else [])
                   @ (if m > 0 then [str_int m @ ''m''] else [])
        in join '' '' (larger @ (if s > 0 \<or> larger = [] then [str_int s @ ''s''] else [])))"


section \<open>Downsampling the decoded path (get_fuel_stations_along_route, lines 65-68)\<close>

text \<open>
  The extended slice \<open>points[::step]\<close>: the elements at the indices \<open>0, step, 2 * step, ...\<close>
  below \<open>len(points)\<close>, that is \<open>ceil(len(points) / step)\<close> of them; a step of zero raises
  \<open>ValueError\<close>.
\<close>

definition py_slice_step :: "nat \<Rightarrow> 'a list \<Rightarrow> py_error + 'a list" where
  "py_slice_step step xs =
     (if step = 0 then Inl ValueError
      else Inr (map (\<lambda>i. xs ! (i * step)) [0..<(length xs + step - 1) div step]))"

definition MAX_QUERY_POINTS :: nat where
  "MAX_QUERY_POINTS = 50"

definition downsample_points :: "'a list \<Rightarrow> py_error + 'a list" where
  "downsample_points points =
     (if length points > MAX_QUERY_POINTS
      then py_slice_step (length points div MAX_QUERY_POINTS) points
      else Inr points)"

section \<open>What the page shows and requests\<close>

type_synonym coord = "rat \<times> rat"

datatype ui_msg =
    StError string
  | StWarning string
  | StInfoFound nat int
  | StCode string
  | SidebarError string
  | SidebarWarning string

datatype effect =
    GeocodeRequest string
  | RoutingRequest "coord list" bool
  | OverpassRequest int "coord list"
  | Show ui_msg

section \<open>The fuel-station lookup\<close>

record osm_center =
  center_lat :: "rat option"
  center_lon :: "rat option"

record station =
  lat :: "rat option"
  lon :: "rat option"
  center :: "osm_center option"
  tags :: "(string \<rightharpoonup> string) option"



section \<open>Fuel-station markers (create_map, lines 140-146)\<close>

record marker =
  location :: "rat \<times> rat"
  popup :: string

text \<open>\<open>a or b\<close> on optional numbers: \<open>a\<close> when it is present and nonzero, else \<open>b\<close>.\<close>

definition py_or :: "rat option \<Rightarrow> rat option \<Rightarrow> rat option" where
  "py_or a b = (case a of Some x \<Rightarrow> (if x \<noteq> 0 then Some x else b) | None \<Rightarrow> b)"

definition truthy :: "rat option \<Rightarrow> bool" where
  "truthy a = (case a of Some x \<Rightarrow> x \<noteq> 0 | None \<Rightarrow> False)"

definition station_marker :: "station \<Rightarrow> marker option" where
  "station_marker s =
     (let lat' = py_or (lat s) (case center s of None \<Rightarrow> None | Some c \<Rightarrow> center_lat c);
          lon' = py_or (lon s) (case center s of None \<Rightarrow> None | Some c \<Rightarrow> center_lon c)
      in if truthy lat' \<and> truthy lon' then
           (case (lat', lon') of
              (Some la, Some lo) \<Rightarrow>
                Some \<lparr>location = (la, lo),
                      popup = (case tags s of
                                 None \<Rightarrow> ''Fuel Station''
                               | Some t \<Rightarrow>
                                   (case t ''name'' of None \<Rightarrow> ''Fuel Station'' | Some n \<Rightarrow> n))\<rparr>
            | _ \<Rightarrow> None)
         else None)"

fun station_markers :: "station list \<Rightarrow> marker list" where
  "station_markers [] = []"
| "station_markers (s # ss) =
     (case station_marker s of
        None \<Rightarrow> station_markers ss
      | Some m \<Rightarrow> m # station_markers ss)"

definition fuel_station_markers :: "station list option \<Rightarrow> marker list" where
  "fuel_station_markers fuel_stations =
     (case fuel_stations of None \<Rightarrow> [] | Some ss \<Rightarrow> station_markers ss)"

section \<open>Routes and the itinerary table (create_route_details_df)\<close>

record maneuver =
  mtype :: "string option"
  modifier :: "string option"
  instruction :: "string option"

record step =
  maneuver :: "maneuver option"
  name :: "string option"
  step_distance :: rat
  step_duration :: rat

record leg =
  steps :: "step list"

record route =
  geometry :: string
  distance :: "rat option"
  duration :: "rat option"
  legs :: "leg list"

text \<open>\<open>s.replace('_', ' ')\<close> and \<open>s.title()\<close> on ASCII strings.\<close>

definition replace_underscore :: "string \<Rightarrow> string" where
  "replace_underscore s = map (\<lambda>c. if c = CHR ''_'' then CHR '' '' else c) s"

definition is_lower :: "char \<Rightarrow> bool" where
  "is_lower c = (97 \<le> (of_char c :: nat) \<and> (of_char c :: nat) \<le> 122)"

definition is_upper :: "char \<Rightarrow> bool" where
  "is_upper c = (65 \<le> (of_char c :: nat) \<and> (of_char c :: nat) \<le> 90)"

definition to_upper :: "char \<Rightarrow> char" where
  "to_upper c = (if is_lower c then char_of ((of_char c :: nat) - 32) else c)"

definition to_lower :: "char \<Rightarrow> char" where
  "to_lower c = (if is_upper c then char_of ((of_char c :: nat) + 32) else c)"

fun title_from :: "bool \<Rightarrow> string \<Rightarrow> string" where
  "title_from previous_is_cased [] = []"
| "title_from previous_is_cased (c # cs) =
     (if is_lower c then
        (if previous_is_cased then c else to_upper c) # title_from True cs
      else if is_upper c then
        (if previous_is_cased then to_lower c else c) # title_from True cs
      else c # title_from False cs)"

definition title :: "string \<Rightarrow> string" where
  "title s = title_from False s"

text \<open>
  The body of the inner loop, lines 160 to 178: the instruction of one step, given the
  number of legs of the route and the index of the step's leg. The comparison
  \<open>leg_index < len(route['legs']) - 1\<close> is on Python integers.
\<close>

definition final_instruction :: "nat \<Rightarrow> nat \<Rightarrow> step \<Rightarrow> string" where
  "final_instruction n_legs leg_index stp =
     (let maneuver_type =
            title (replace_underscore
              (case maneuver stp of
                 None \<Rightarrow> ''unknown''
               | Some m \<Rightarrow> (case mtype m of None \<Rightarrow> ''unknown'' | Some t \<Rightarrow> t)));
          modifier' =
            title (replace_underscore
              (case maneuver stp of
                 None \<Rightarrow> []
               | Some m \<Rightarrow> (case modifier m of None \<Rightarrow> [] | Some t \<Rightarrow> t)));
          road_name = (case name stp of None \<Rightarrow> [] | Some n \<Rightarrow> n)
      in if maneuver_type = ''Depart'' then
           (if road_name \<noteq> [] then ''Depart on '' @ road_name else ''Depart'')
         else if maneuver_type = ''New Name'' then ''Continue onto '' @ road_name
         else if maneuver_type = ''Arrive'' \<and> int leg_index < int n_legs - 1 then
           ''You have arrived at Waypoint '' @ str_int (int leg_index + 1) @ ''.''
         else if maneuver_type = ''Arrive'' then
           (case maneuver stp of
              None \<Rightarrow> ''You have arrived at your final destination.''
            | Some m \<Rightarrow>
                (case instruction m of
                   None \<Rightarrow> ''You have arrived at your final destination.''
                 | Some i \<Rightarrow> i))
         else
           (let instruction_parts =
                  [maneuver_type, modifier']
                  @ (if road_name \<noteq> [] then [''onto '' @ road_name] else [])
            in join '' '' (filter (\<lambda>part. part \<noteq> []) instruction_parts)))"

text \<open>
  The rows of the table. The columns \<open>Step\<close> and \<open>Instruction\<close> are modelled; the columns
  \<open>Distance (km)\<close> and \<open>Time\<close> are formatted floating-point values of the step and do not
  influence the other two.
\<close>

record detail_row =
  Step :: nat
  Instruction :: string

text \<open>The inner loop: the rows of one leg and the counter \<open>total_steps\<close> after it.\<close>

fun leg_rows :: "nat \<Rightarrow> nat \<Rightarrow> nat \<Rightarrow> step list \<Rightarrow> detail_row list \<times> nat" where
  "leg_rows n_legs leg_index total_steps [] = ([], total_steps)"
| "leg_rows n_legs leg_index total_steps (stp # rest) =
     (let row = \<lparr>Step = total_steps, Instruction = final_instruction n_legs leg_index stp\<rparr>;
          (rows, total') = leg_rows n_legs leg_index (total_steps + 1) rest
      in (row # rows, total'))"

text \<open>The outer loop over \<open>enumerate(route['legs'])\<close>.\<close>

fun route_rows :: "nat \<Rightarrow> nat \<Rightarrow> nat \<Rightarrow> leg list \<Rightarrow> detail_row list" where
  "route_rows n_legs leg_index total_steps [] = []"
| "route_rows n_legs leg_index total_steps (l # ls) =
     (let (rows, total') = leg_rows n_legs leg_index total_steps (steps l)
      in rows @ route_rows n_legs (leg_index + 1) total' ls)"

definition create_route_details_df :: "route \<Rightarrow> detail_row list" where
  "create_route_details_df r = route_rows (length (legs r)) 0 1 (legs r)"

section \<open>Sorting the routes by duration\<close>

text \<open>
  The sort key \<open>r.get('duration', float('inf'))\<close>: a number, or positive infinity for a
  route without a duration.
\<close>

datatype dur_key = Finite rat | Infinity

instantiation dur_key :: linorder
begin

fun less_eq_dur_key :: "dur_key \<Rightarrow> dur_key \<Rightarrow> bool" where
  "less_eq_dur_key (Finite a) (Finite b) = (a \<le> b)"
| "less_eq_dur_key (Finite a) Infinity = True"
| "less_eq_dur_key Infinity (Finite b) = False"
| "less_eq_dur_key Infinity Infinity = True"

definition less_dur_key :: "dur_key \<Rightarrow> dur_key \<Rightarrow> bool" where
  "less_dur_key x y = (x \<le> y \<and> \<not> y \<le> x)"

instance
proof
  fix x y z :: dur_key
  show "(x < y) = (x \<le> y \<and> \<not> y \<le> x)" by (simp add: less_dur_key_def)
  show "x \<le> x" by (cases x) simp_all
  show "x \<le> y \<Longrightarrow> y \<le> z \<Longrightarrow> x \<le> z" by (cases x; cases y; cases z) simp_all
  show "x \<le> y \<Longrightarrow> y \<le> x \<Longrightarrow> x = y" by (cases x; cases y) simp_all
  show "x \<le> y \<or> y \<le> x" by (cases x; cases y) auto
qed

end

definition duration_key :: "route \<Rightarrow> dur_key" where
  "duration_key r = (case duration r of None \<Rightarrow> Infinity | Some d \<Rightarrow> Finite d)"

text \<open>
  \<open>list.sort(key=...)\<close> is a stable sort; the stable sort of a list by a key is unique, and
  \<open>sort_key\<close> (insertion from the right) computes it.
\<close>

definition list_sort :: "('a \<Rightarrow> 'k::linorder) \<Rightarrow> 'a list \<Rightarrow> 'a list" where
  "list_sort key xs = sort_key key xs"

section \<open>The geocoding and routing clients\<close>

record geo_candidate =
  cand_lat :: "rat option"
  cand_lon :: "rat option"

text \<open>
  The outcome of the GET to the geocoder followed by \<open>raise_for_status()\<close> and \<open>json()\<close>:
  a \<open>RequestException\<close> with its text, or the list of candidates; a candidate without
  \<open>lat\<close> or \<open>lon\<close> raises \<open>KeyError\<close>, which \<open>get_coords\<close> catches.
\<close>

datatype geo_response = GeoRequestException string | GeoResults "geo_candidate list"

definition get_coords :: "(string \<Rightarrow> geo_response) \<Rightarrow> string \<Rightarrow> (rat \<times> rat) option \<times> effect list" where
  "get_coords geocoder place_name =
     (if place_name = [] then (None, [])
      else
        case geocoder place_name of
          GeoRequestException e \<Rightarrow>
            (None, [GeocodeRequest place_name,
                    Show (StError (''Error calling Nominatim API: '' @ e))])
        | GeoResults data \<Rightarrow>
            (case data of
               [] \<Rightarrow> (None, [GeocodeRequest place_name])
             | c # _ \<Rightarrow>
                 (case (cand_lat c, cand_lon c) of
                    (Some la, Some lo) \<Rightarrow> (Some (la, lo), [GeocodeRequest place_name])
                  | _ \<Rightarrow>
                      (None, [GeocodeRequest place_name,
                              Show (StError (''Could not find coordinates for '' @ [CHR 0x27]
                                @ place_name @ [CHR 0x27]
                                @ ''. Please try a different name.''))]))))"

text \<open>
  The outcome of the GET to the routing service: a \<open>RequestException\<close>, or the decoded
  object, of which the source reads \<open>data.get('routes')\<close>.
\<close>

datatype route_response = RouteRequestException string | RouteData "route list option"

definition get_route ::
    "(coord list \<Rightarrow> bool \<Rightarrow> route_response) \<Rightarrow> coord list \<Rightarrow> bool \<Rightarrow> route list option \<times> effect list" where
  "get_route router coords_list alternatives =
     (case router coords_list alternatives of
        RouteRequestException e \<Rightarrow>
          (None, [RoutingRequest coords_list alternatives,
                  Show (StError (''Error calling OSRM API: '' @ e))])
      | RouteData rs \<Rightarrow>
          (case rs of
             Some (r # rest) \<Rightarrow> (Some (r # rest), [RoutingRequest coords_list alternatives])
           | _ \<Rightarrow> (None, [RoutingRequest coords_list alternatives])))"

section \<open>Session state and the page script (main)\<close>

datatype input_method = PlaceName | Coordinates

record session_state =
  routes :: "route list"
  selected_route_index :: nat
  destinations :: "string list"
  show_add_destination_input :: bool
  all_places :: "string list option"
  all_coords :: "coord list option"

text \<open>
  The state of a new session (lines 11 to 20). \<open>all_places\<close> and \<open>all_coords\<close> are absent
  until a submit stores them; \<open>show_add_destination_input\<close> is created as \<open>False\<close> on the
  first run in name mode and is read nowhere before. The departure date and time are
  written by their widgets only and are left out.
\<close>

definition initial_state :: session_state where
  "initial_state =
     \<lparr>routes = [], selected_route_index = 0, destinations = [],
      show_add_destination_input = False, all_places = None, all_coords = None\<rparr>"

text \<open>
  The values of the widgets in one run of the script. \<open>radio_choice\<close> is the option a
  user picked in the route selector, if any; the selector returns it when it is one of its
  options and its default, the \<open>index\<close> argument, otherwise.
\<close>

record inputs =
  input_method :: input_method
  start_place :: string
  end_place :: string
  new_destination :: string
  start_lat :: rat
  start_lon :: rat
  end_lat :: rat
  end_lon :: rat
  show_alternatives :: bool
  fuel_efficiency :: rat
  fuel_price :: rat
  radio_choice :: "nat option"

record environment =
  geocoder :: "string \<Rightarrow> geo_response"
  router :: "coord list \<Rightarrow> bool \<Rightarrow> route_response"

text \<open>
  The loop of lines 283 to 290 with \<open>valid_trip\<close>: the places are geocoded in order, and
  the first failure ends the loop.
\<close>

fun geocode_places ::
    "(string \<Rightarrow> geo_response) \<Rightarrow> string list \<Rightarrow> coord list \<Rightarrow> bool \<times> coord list \<times> effect list" where
  "geocode_places g [] acc = (True, acc, [])"
| "geocode_places g (place # rest) acc =
     (case get_coords g place of
        (Some (la, lo), es) \<Rightarrow>
          (let (valid_trip, cs, es') = geocode_places g rest (acc @ [(lo, la)])
           in (valid_trip, cs, es @ es'))
      | (None, es) \<Rightarrow>
          (False, acc,
           es @ [Show (SidebarError (''Could not find '' @ [CHR 0x27] @ place @ [CHR 0x27]
                   @ ''. Route calculation cancelled.''))]))"

text \<open>Lines 278 to 294: the coordinates of the trip, with \<open>all_places\<close> stored.\<close>

definition collect_coords ::
    "environment \<Rightarrow> inputs \<Rightarrow> session_state \<Rightarrow> session_state \<times> coord list \<times> effect list" where
  "collect_coords env inp st =
     (case input_method inp of
        PlaceName \<Rightarrow>
          (let places_to_geocode = [start_place inp] @ destinations st @ [end_place inp];
               st' = st\<lparr>all_places := Some places_to_geocode\<rparr>;
               (valid_trip, cs, es) = geocode_places (geocoder env) places_to_geocode []
           in (st', (if valid_trip then cs else []), es))
      | Coordinates \<Rightarrow>
          (st\<lparr>all_places := Some [''Start'', ''End'']\<rparr>,
           [(start_lon inp, start_lat inp), (end_lon inp, end_lat inp)], []))"

text \<open>Lines 296 to 308: the routing request and what is stored of its result.\<close>

definition fetch_routes ::
    "environment \<Rightarrow> inputs \<Rightarrow> coord list \<Rightarrow> session_state \<Rightarrow> session_state \<times> effect list" where
  "fetch_routes env inp coords st =
     (if length coords \<ge> 2 then
        (case get_route (router env) coords (show_alternatives inp) of
           (Some rs, es) \<Rightarrow>
             (st\<lparr>routes := list_sort duration_key rs,
                 selected_route_index := 0,
                 all_coords := Some coords\<rparr>, es)
         | (None, es) \<Rightarrow>
             (st\<lparr>routes := []\<rparr>,
              es @ [Show (StError ''No routes found. Please check your locations.'')]))
      else
        (st, [Show (SidebarWarning ''Please provide at least a start and end location.'')]))"

text \<open>The handler of the button \<open>Get Route\<close>, lines 277 to 308.\<close>

definition submit :: "environment \<Rightarrow> inputs \<Rightarrow> session_state \<Rightarrow> session_state \<times> effect list" where
  "submit env inp st =
     (let (st1, coords, es1) = collect_coords env inp st;
          (st2, es2) = fetch_routes env inp coords st1
      in (st2, es1 @ es2))"

text \<open>
  Lines 322 to 327: the figures of the trip summary. \<open>/\<close> raises \<open>ZeroDivisionError\<close> on
  a zero divisor. The arrival time, a date computation, is left out.
\<close>

record trip_summary =
  duration_seconds :: rat
  distance_km :: rat
  fuel_needed :: rat
  estimated_cost :: rat

definition py_truediv :: "rat \<Rightarrow> rat \<Rightarrow> py_error + rat" where
  "py_truediv a b = (if b = 0 then Inl ZeroDivisionError else Inr (a / b))"

definition trip_estimation :: "rat \<Rightarrow> rat \<Rightarrow> route \<Rightarrow> py_error + trip_summary" where
  "trip_estimation fuel_efficiency' fuel_price' selected_route =
     (let duration_seconds' = (case duration selected_route of None \<Rightarrow> 0 | Some d \<Rightarrow> d) in
      case py_truediv (case distance selected_route of None \<Rightarrow> 0 | Some d \<Rightarrow> d) 1000 of
        Inl e \<Rightarrow> Inl e
      | Inr distance_km' \<Rightarrow>
          (case (if fuel_efficiency' > 0 then py_truediv distance_km' fuel_efficiency'
                 else Inr 0) of
             Inl e \<Rightarrow> Inl e
           | Inr fuel_needed' \<Rightarrow>
               Inr \<lparr>duration_seconds = duration_seconds', distance_km = distance_km',
                    fuel_needed = fuel_needed',
                    estimated_cost = fuel_needed' * fuel_price'\<rparr>))"

text \<open>
  \<open>st.radio(options=range(n), index=i)\<close>: an exception when the default index is not an
  option, else the user's pick or the default.
\<close>

definition radio :: "nat \<Rightarrow> nat \<Rightarrow> nat option \<Rightarrow> py_error + nat" where
  "radio n_options index choice =
     (if index \<ge> n_options then Inl StreamlitAPIException
      else Inr (case choice of
                  Some c \<Rightarrow> (if c < n_options then c else index)
                | None \<Rightarrow> index))"

text \<open>
  Lines 311 to 327: the route selector and the summary of the selected route. An exception
  ends the run; what was stored in the session state before it stays.
\<close>

definition render :: "inputs \<Rightarrow> session_state \<Rightarrow> session_state \<times> (py_error + trip_summary option)" where
  "render inp st =
     (if routes st \<noteq> [] then
        (if all_coords st = None \<or> all_places st = None then (st, Inl AttributeError)
         else
           case (if length (routes st) > 1
                 then radio (length (routes st)) (selected_route_index st) (radio_choice inp)
                 else Inr (selected_route_index st)) of
             Inl e \<Rightarrow> (st, Inl e)
           | Inr i \<Rightarrow>
               (let st' = st\<lparr>selected_route_index := i\<rparr> in
                if i < length (routes st') then
                  (case trip_estimation (fuel_efficiency inp) (fuel_price inp) (routes st' ! i) of
                     Inl e \<Rightarrow> (st', Inl e)
                   | Inr summary \<Rightarrow> (st', Inr (Some summary)))
                else (st', Inl IndexError)))
      else (st, Inr None))"

record run_result =
  state :: session_state
  effects :: "effect list"
  outcome :: "py_error + trip_summary option"

text \<open>
  One pass of \<open>main\<close> that no \<open>st.rerun()\<close> interrupts: the sidebar (coordinate mode clears
  the waypoints), the handler of \<open>Get Route\<close> when that button was clicked, the rendering.
\<close>

definition main_pass :: "environment \<Rightarrow> inputs \<Rightarrow> bool \<Rightarrow> session_state \<Rightarrow> run_result" where
  "main_pass env inp get_route_clicked st =
     (let st0 = (case input_method inp of
                   Coordinates \<Rightarrow> st\<lparr>destinations := []\<rparr>
                 | PlaceName \<Rightarrow> st);
          (st1, es) = (if get_route_clicked then submit env inp st0 else (st0, []));
          (st2, out) = render inp st1
      in \<lparr>state = st2, effects = es, outcome = out\<rparr>)"

text \<open>
  A run of the script after one user action. At most one button is clicked per run. The
  waypoint buttons exist in name mode only; three of them store their change and call
  \<open>st.rerun()\<close>, which starts the script again with no button clicked. A click on a button
  that the page does not show is no click.
\<close>

datatype button =
    NoButton
  | GetRoute
  | DeleteDestination nat
  | AddDestination
  | ConfirmAdd
  | CancelAdd

definition pop :: "nat \<Rightarrow> 'a list \<Rightarrow> 'a list" where
  "pop i xs = take i xs @ drop (Suc i) xs"

definition main :: "environment \<Rightarrow> inputs \<Rightarrow> button \<Rightarrow> session_state \<Rightarrow> run_result" where
  "main env inp btn st =
     (case btn of
        NoButton \<Rightarrow> main_pass env inp False st
      | GetRoute \<Rightarrow> main_pass env inp True st
      | DeleteDestination i \<Rightarrow>
          (if input_method inp = PlaceName \<and> i < length (destinations st)
           then main_pass env inp False (st\<lparr>destinations := pop i (destinations st)\<rparr>)
           else main_pass env inp False st)
      | AddDestination \<Rightarrow>
          (if input_method inp = PlaceName \<and> \<not> show_add_destination_input st
           then main_pass env inp False (st\<lparr>show_add_destination_input := True\<rparr>)
           else main_pass env inp False st)
      | ConfirmAdd \<Rightarrow>
          (if input_method inp = PlaceName \<and> show_add_destination_input st then
             (if new_destination inp \<noteq> [] then
                main_pass env inp False
                  (st\<lparr>destinations := destinations st @ [new_destination inp],
                      show_add_destination_input := False\<rparr>)
              else
                (let r = main_pass env inp False st
                 in r\<lparr>effects := Show (SidebarWarning ''Please enter a destination.'') # effects r\<rparr>))
           else main_pass env inp False st)
      | CancelAdd \<Rightarrow>
          (if input_method inp = PlaceName \<and> show_add_destination_input st
           then main_pass env inp False (st\<lparr>show_add_destination_input := False\<rparr>)
           else main_pass env inp False st))"

text \<open>The session states that some sequence of runs reaches from a new session.\<close>

inductive reachable :: "session_state \<Rightarrow> bool" where
  reachable_initial: "reachable initial_state"
| reachable_run: "reachable st \<Longrightarrow> reachable (state (main env inp btn st))"

text \<open>The states after a list of runs, for evaluation.\<close>

fun run_all :: "(environment \<times> inputs \<times> button) list \<Rightarrow> session_state \<Rightarrow> session_state" where
  "run_all [] st = st"
| "run_all ((env, inp, btn) # rest) st = run_all rest (state (main env inp btn st))"

section \<open>Auxiliary notions for the proofs\<close>

text \<open>A string that is not empty and neither starts nor ends with whitespace.\<close>

definition clean :: "string \<Rightarrow> bool" where
  "clean s = (s \<noteq> [] \<and> \<not> is_space (hd s) \<and> \<not> is_space (last s))"

text \<open>
  The entries of a step that its instruction is built from, with the defaults of the
  \<open>dict.get\<close> calls in lines 160 to 163 and 173.
\<close>

definition raw_type :: "step \<Rightarrow> string" where
  "raw_type stp =
     (case maneuver stp of
        None \<Rightarrow> ''unknown''
      | Some m \<Rightarrow> (case mtype m of None \<Rightarrow> ''unknown'' | Some t \<Rightarrow> t))"

definition raw_modifier :: "step \<Rightarrow> string" where
  "raw_modifier stp =
     (case maneuver stp of
        None \<Rightarrow> []
      | Some m \<Rightarrow> (case modifier m of None \<Rightarrow> [] | Some t \<Rightarrow> t))"

definition road_name :: "step \<Rightarrow> string" where
  "road_name stp = (case name stp of None \<Rightarrow> [] | Some n \<Rightarrow> n)"

definition service_instruction :: "step \<Rightarrow> string option" where
  "service_instruction stp = Option.bind (maneuver stp) instruction"

text \<open>The number of steps of a route, over all its legs.\<close>

definition step_count :: "route \<Rightarrow> nat" where
  "step_count r = sum_list (map (\<lambda>l. length (steps l)) (legs r))"

text \<open>A sample session: coordinate input, and a routing service with a fixed answer.\<close>

definition example_route :: "string \<Rightarrow> rat \<Rightarrow> route" where
  "example_route g d = \<lparr>geometry = g, distance = Some 1000, duration = Some d, legs = []\<rparr>"

definition example_inputs :: inputs where
  "example_inputs =
     \<lparr>input_method = Coordinates, start_place = [], end_place = [], new_destination = [],
      start_lat = 35, start_lon = 139, end_lat = 36, end_lon = 140,
      show_alternatives = True, fuel_efficiency = 15, fuel_price = 175,
      radio_choice = None\<rparr>"

definition example_env :: "route_response \<Rightarrow> environment" where
  "example_env answer = \<lparr>geocoder = (\<lambda>_. GeoResults []), router = (\<lambda>_ _. answer)\<rparr>"

text \<open>
  Three runs: a submit that three routes answer, the user's pick of the third route, and a
  submit on which the routing request fails.
\<close>

definition example_runs :: "(environment \<times> inputs \<times> button) list" where
  "example_runs =
     [(example_env (RouteData (Some [example_route ''a'' 300, example_route ''b'' 100,
                                     example_route ''c'' 200])),
       example_inputs, GetRoute),
      (example_env (RouteData None), example_inputs\<lparr>radio_choice := Some 2\<rparr>, NoButton),
      (example_env (RouteRequestException ''timeout''), example_inputs, GetRoute)]"

text \<open>
  The first two of these runs, and then a submit that three new routes answer while the
  route selector still holds the pick of the third route.
\<close>

definition example_runs_retained :: "(environment \<times> inputs \<times> button) list" where
  "example_runs_retained =
     take 2 example_runs
     @ [(example_env (RouteData (Some [example_route ''d'' 50, example_route ''e'' 60,
                                       example_route ''f'' 70])),
         example_inputs\<lparr>radio_choice := Some 2\<rparr>, GetRoute)]"


text \<open>
  A sample submit in name mode: two routes are stored and the second is selected; the
  trip goes from Tokyo over the waypoint Nowhere, which the geocoder does not find, to
  Osaka.
\<close>

definition example_named_env :: environment where
  "example_named_env =
     \<lparr>geocoder = (\<lambda>p. if p = ''Nowhere'' then GeoResults []
                         else GeoResults [\<lparr>cand_lat = Some 35, cand_lon = Some 139\<rparr>]),
      router = (\<lambda>_ _. RouteData (Some [example_route ''c'' 1]))\<rparr>"

definition example_named_inputs :: inputs where
  "example_named_inputs =
     example_inputs\<lparr>input_method := PlaceName, start_place := ''Tokyo'',
                    end_place := ''Osaka''\<rparr>"

definition example_state :: session_state where
  "example_state =
     \<lparr>routes = [example_route ''a'' 100, example_route ''b'' 200],
      selected_route_index = 1, destinations = [''Nowhere''],
      show_add_destination_input = False,
      all_places = Some [''Start'', ''End''],
      all_coords = Some [(139, 35), (140, 36)]\<rparr>"

text \<open>The selected index is an index of the stored route set, when that set is not empty.\<close>

definition index_valid :: "session_state \<Rightarrow> bool" where
  "index_valid st = (routes st = [] \<or> selected_route_index st < length (routes st))"

section \<open>Properties of format_duration\<close>

lemma digit_char_not_space: "d < 10 \<Longrightarrow> \<not> is_space (digit_char d)"
proof -
  assume "d < 10"
  then have "d \<in> {0,1,2,3,4,5,6,7,8,9}" by auto
  then show ?thesis by (auto simp: digit_char_def is_space_def)
qed

lemma str_nat_nonempty: "str_nat n \<noteq> []"
  by (subst str_nat.simps) simp

lemma str_nat_hd: "\<not> is_space (hd (str_nat n))"
proof (induction n rule: str_nat.induct)
  case (1 n)
  show ?case
  proof (cases "n < 10")
    case True
    then show ?thesis by (subst str_nat.simps) (simp add: digit_char_not_space)
  next
    case False
    with "1.IH" show ?thesis
      by (subst str_nat.simps) (simp add: str_nat_nonempty)
  qed
qed

lemma dropWhile_hd_id: "s \<noteq> [] \<Longrightarrow> \<not> P (hd s) \<Longrightarrow> dropWhile P s = s"
  by (cases s) auto

lemma strip_id: "clean s \<Longrightarrow> strip s = s"
proof -
  assume "clean s"
  then have a: "s \<noteq> []" "\<not> is_space (hd s)" "\<not> is_space (last s)"
    by (simp_all add: clean_def)
  have 1: "dropWhile is_space s = s" using a by (simp add: dropWhile_hd_id)
  have 2: "dropWhile is_space (rev s) = rev s"
    using a by (intro dropWhile_hd_id) (simp_all add: hd_rev)
  show ?thesis by (simp add: strip_def 1 2)
qed

lemma strip_trailing:
  assumes "clean s"
  shows "strip (s @ '' '') = s"
proof -
  from assms have a: "s \<noteq> []" "\<not> is_space (hd s)" "\<not> is_space (last s)"
    by (simp_all add: clean_def)
  have 1: "dropWhile is_space (s @ '' '') = s @ '' ''"
    using a by (intro dropWhile_hd_id) simp_all
  have 2: "dropWhile is_space (rev s) = rev s"
    using a by (intro dropWhile_hd_id) (simp_all add: hd_rev)
  have 3: "is_space CHR '' ''" by (simp add: is_space_def)
  show ?thesis by (simp add: strip_def 1 2 3)
qed

lemma clean_unit: "0 \<le> k \<Longrightarrow> \<not> is_space c \<Longrightarrow> clean (str_int k @ [c])"
  by (simp add: clean_def str_int_def str_nat_nonempty str_nat_hd)

lemma clean_join: "us \<noteq> [] \<Longrightarrow> \<forall>u\<in>set us. clean u \<Longrightarrow> clean (join '' '' us)"
proof (induction "'' ''" us rule: join.induct)
  case 1
  then show ?case by simp
next
  case (2 p)
  then show ?case by simp
next
  case (3 p q ps)
  then have "clean (join '' '' (q # ps))" "clean p" by simp_all
  then show ?case by (auto simp: clean_def)
qed

lemma concat_trailing:
  "us \<noteq> [] \<Longrightarrow> concat (map (\<lambda>u. u @ '' '') us) = join '' '' us @ '' ''"
  by (induction "'' ''" us rule: join.induct) simp_all

lemma concat_then_last: "concat (map (\<lambda>u. u @ '' '') us) @ v = join '' '' (us @ [v])"
  by (induction "'' ''" us rule: join.induct) simp_all

lemma strip_units:
  assumes "\<forall>u\<in>set us. clean u" "us \<noteq> []"
  shows "strip (concat (map (\<lambda>u. u @ '' '') us)) = join '' '' us"
  using assms by (simp add: concat_trailing strip_trailing clean_join)

lemma strip_units_last:
  assumes "\<forall>u\<in>set us. clean u" "clean v"
  shows "strip (concat (map (\<lambda>u. u @ '' '') us) @ v) = join '' '' (us @ [v])"
proof -
  have "clean (join '' '' (us @ [v]))" using assms by (intro clean_join) auto
  then show ?thesis by (simp add: concat_then_last strip_id)
qed

lemma format_duration_pos:
  assumes "0 < n"
  shows "format_duration (Some n) = format_duration_spec n \<and> clean (format_duration (Some n))"
proof -
  define h m s where "h = n div 60 div 60" and "m = n div 60 mod 60" and "s = n mod 60"
  have h3600: "n div 3600 = h" by (simp add: h_def div_mult2_eq[symmetric])
  have nn: "0 \<le> h" "0 \<le> m" "0 \<le> s" using assms by (simp_all add: h_def m_def s_def)
  define larger where "larger = (if h > 0 then [str_int h @ ''h''] else [])
                   @ (if m > 0 then [str_int m @ ''m''] else [])"
  define secs where "secs = (if s > 0 \<or> larger = [] then [str_int s @ ''s''] else [])"
  have hs: "\<not> is_space CHR ''h''" "\<not> is_space CHR ''m''" "\<not> is_space CHR ''s''"
    by (simp_all add: is_space_def)
  have cl: "\<forall>u\<in>set larger. clean u"
    using nn hs by (auto simp: larger_def clean_unit)
  have cs: "clean (str_int s @ ''s'')" using nn hs by (simp add: clean_unit)
  have spec: "format_duration_spec n = join '' '' (larger @ secs)"
    using assms
    by (simp add: format_duration_spec_def Let_def h3600 larger_def secs_def m_def s_def)
  have code: "format_duration (Some n) =
      strip (concat (map (\<lambda>u. u @ '' '') larger) @ concat secs)"
    using assms
    by (simp add: format_duration_def Let_def larger_def secs_def
        h_def[symmetric] m_def[symmetric] s_def[symmetric])
  have ne: "larger @ secs \<noteq> []" by (simp add: secs_def)
  have "strip (concat (map (\<lambda>u. u @ '' '') larger) @ concat secs) = join '' '' (larger @ secs)"
  proof (cases "secs = []")
    case True
    then have "larger \<noteq> []" using ne by simp
    with cl True show ?thesis by (simp add: strip_units)
  next
    case False
    then have "secs = [str_int s @ ''s'']" by (simp add: secs_def split: if_splits)
    with cl cs show ?thesis using strip_units_last[of larger "str_int s @ ''s''"] by simp
  qed
  moreover have "clean (join '' '' (larger @ secs))"
    using ne cl cs by (intro clean_join) (auto simp: secs_def)
  ultimately show ?thesis by (simp add: spec code)
qed

lemma space_is_space: "is_space CHR '' ''"
  by (simp add: is_space_def)

text \<open>
  C2: for every non-negative integer number of seconds, \<open>format_duration\<close> gives the hour,
  minute and second components, each omitted when it is zero, joined by single spaces;
  zero and an absent value give exactly \<open>0s\<close>; the seconds are shown when they are positive
  or no larger unit was shown; the result is not empty and has no leading and no trailing
  space.
\<close>

theorem format_duration_correct:
  assumes "0 \<le> n"
  shows "format_duration None = ''0s''
       \<and> format_duration (Some n) = format_duration_spec n
       \<and> format_duration (Some n) \<noteq> []
       \<and> hd (format_duration (Some n)) \<noteq> CHR '' ''
       \<and> last (format_duration (Some n)) \<noteq> CHR '' ''"
proof (cases "n = 0")
  case True
  then show ?thesis by (simp add: format_duration_def format_duration_spec_def)
next
  case False
  with assms have "0 < n" by simp
  note fd = format_duration_pos[OF this]
  from fd have e: "format_duration (Some n) = format_duration_spec n" by (rule conjunct1)
  from fd have c: "clean (format_duration (Some n))" by (rule conjunct2)
  from c have "format_duration (Some n) \<noteq> []"
    "hd (format_duration (Some n)) \<noteq> CHR '' ''"
    "last (format_duration (Some n)) \<noteq> CHR '' ''"
    using space_is_space by (auto simp: clean_def)
  with e show ?thesis by (simp add: format_duration_def)
qed

theorem format_duration_correct_witness:
  "format_duration (Some 3725) = ''1h 2m 5s''
   \<and> format_duration (Some 65) = ''1m 5s''
   \<and> format_duration (Some 45) = ''45s''
   \<and> format_duration (Some 3600) = ''1h''
   \<and> format_duration (Some 0) = ''0s''
   \<and> format_duration None = ''0s''"
proof -
  have s: "format_duration_spec 3725 = ''1h 2m 5s''" "format_duration_spec 65 = ''1m 5s''"
    "format_duration_spec 45 = ''45s''" "format_duration_spec 3600 = ''1h''"
    "format_duration_spec 0 = ''0s''"
    by code_simp+
  show ?thesis
    using format_duration_correct[of 3725] format_duration_correct[of 65]
      format_duration_correct[of 45] format_duration_correct[of 3600]
      format_duration_correct[of 0] s
    by simp
qed

section \<open>Properties of the downsampling\<close>

lemma slice_index_in_range:
  assumes "0 < k" "i < (n + k - 1) div k"
  shows "i * k < (n::nat)"
proof -
  from assms have "Suc i \<le> (n + k - 1) div k" by simp
  with assms(1) have "Suc i * k \<le> n + k - 1"
    by (simp only: less_eq_div_iff_mult_less_eq)
  with assms(1) show ?thesis by simp
qed

lemma strict_sorted_subseq_upt:
  assumes "sorted_wrt (<) js" "set js \<subseteq> {..<n}"
  shows "subseq js [0..<n]"
proof -
  have "js = filter (\<lambda>i. i \<in> set js) [0..<n]"
  proof (rule sorted_distinct_set_unique)
    show "sorted js" using assms(1) by (simp add: strict_sorted_iff)
    show "distinct js" using assms(1) by (simp add: strict_sorted_iff)
    show "sorted (filter (\<lambda>i. i \<in> set js) [0..<n])" by (simp add: sorted_wrt_filter)
    show "distinct (filter (\<lambda>i. i \<in> set js) [0..<n])" by simp
    show "set js = set (filter (\<lambda>i. i \<in> set js) [0..<n])" using assms(2) by auto
  qed
  then show ?thesis by (metis subseq_filter_left)
qed

lemma stride_indices_sorted: "0 < k \<Longrightarrow> sorted_wrt (<) (map (\<lambda>i. i * k) [0..<m])"
  by (simp add: sorted_wrt_map sorted_wrt_iff_nth_less)

lemma py_slice_step_subseq:
  assumes "0 < k"
  shows "subseq (map (\<lambda>i. xs ! (i * k)) [0..<(length xs + k - 1) div k]) xs"
proof -
  let ?m = "(length xs + k - 1) div k"
  let ?js = "map (\<lambda>i. i * k) [0..<?m]"
  have "set ?js \<subseteq> {..<length xs}"
    using assms by (auto simp: slice_index_in_range)
  with stride_indices_sorted[OF assms] have "subseq ?js [0..<length xs]"
    by (rule strict_sorted_subseq_upt)
  then have "subseq (map ((!) xs) ?js) (map ((!) xs) [0..<length xs])"
    by (rule subseq_map)
  then show ?thesis by (simp add: map_nth comp_def)
qed


lemma downsample_points_long:
  assumes "length xs > 50"
  shows "downsample_points xs =
    Inr (map (\<lambda>i. xs ! (i * (length xs div 50)))
          [0..<(length xs + length xs div 50 - 1) div (length xs div 50)])"
proof -
  from assms have "0 < length xs div 50" by (simp add: div_greater_zero_iff)
  with assms show ?thesis
    by (simp add: downsample_points_def py_slice_step_def MAX_QUERY_POINTS_def)
qed

text \<open>What the stride does bound: the result has fewer than twice the cap's points.\<close>

lemma downsample_points_below_twice_cap:
  assumes "downsample_points xs = Inr ys"
  shows "length ys < 2 * MAX_QUERY_POINTS"
proof (cases "length xs > 50")
  case False
  with assms show ?thesis by (auto simp: downsample_points_def MAX_QUERY_POINTS_def)
next
  case True
  define n k where "n = length xs" and "k = length xs div 50"
  have k: "0 < k" using True by (simp add: k_def div_greater_zero_iff)
  have "n < 50 * k + 50" unfolding n_def k_def by (simp add: dividend_less_times_div)
  with k have "n + k - 1 < 100 * k" by simp
  with k have b: "(n + k - 1) div k < 100"
    by (simp add: div_less_iff_less_mult)
  from assms True have "length ys = (n + k - 1) div k"
    by (auto simp: downsample_points_long n_def k_def)
  with b show ?thesis by (simp add: MAX_QUERY_POINTS_def)
qed

text \<open>
  C3, at a path of 99 points: the stride is \<open>99 // 50 = 1\<close>, and the slice keeps all 99
  points, more than the cap \<open>MAX_QUERY_POINTS\<close>.
\<close>

theorem downsample_points_exceeds_cap:
  "downsample_points [0..<99] = Inr [0..<99] \<and> \<not> length [0..<99] \<le> MAX_QUERY_POINTS"
proof -
  have "map (\<lambda>i. [0..<99] ! i) [0..<99] = [0..<99]"
    by (simp only: map_nth[of "[0..<99]", simplified])
  then show ?thesis
    by (simp add: downsample_points_def py_slice_step_def MAX_QUERY_POINTS_def)
qed

text \<open>
  C4: on a path of 120 points the stride is \<open>120 // 50 = 2\<close>; the result has exactly
  \<open>ceil(120 / 2) = 60\<close> points, the points at the even indices in their order, so it starts
  with the first point of the path and is a subsequence of it; the last point, at index
  119, is not among them.
\<close>

theorem downsample_points_120:
  assumes "length points = 120"
  shows "length points div MAX_QUERY_POINTS = 2
       \<and> downsample_points points = Inr (map (\<lambda>i. points ! (i * 2)) [0..<60])
       \<and> (\<forall>ys. downsample_points points = Inr ys \<longrightarrow>
             length ys = 60 \<and> hd ys = hd points \<and> subseq ys points
             \<and> (\<forall>j<60. ys ! j = points ! (2 * j))
             \<and> (distinct points \<longrightarrow> last points \<notin> set ys))"
proof -
  let ?ys = "map (\<lambda>i. points ! (i * 2)) [0..<60]"
  have d: "downsample_points points = Inr ?ys"
    using assms by (simp add: downsample_points_long)
  have ne: "points \<noteq> []" using assms by auto
  have h: "hd ?ys = hd points"
    using ne by (simp add: hd_map hd_conv_nth upt_conv_Cons del: upt_Suc)
  have s: "subseq ?ys points"
    using py_slice_step_subseq[of 2 points] assms by simp
  have n: "\<forall>j<60. ?ys ! j = points ! (2 * j)"
    by (simp add: mult.commute)
  have l: "distinct points \<longrightarrow> last points \<notin> set ?ys"
  proof
    assume dist: "distinct points"
    show "last points \<notin> set ?ys"
    proof
      assume "last points \<in> set ?ys"
      then obtain i where i: "i < 60" "points ! (i * 2) = last points" by auto
      have "last points = points ! 119" using assms ne by (simp add: last_conv_nth)
      with i dist assms have "i * 2 = 119"
        by (simp add: nth_eq_iff_index_eq)
      then show False by presburger
    qed
  qed
  from d h s n l show ?thesis by (simp add: MAX_QUERY_POINTS_def assms)
qed

theorem downsample_points_120_witness:
  "length [0..<120] = 120
   \<and> downsample_points [0..<120] = Inr (map (\<lambda>i. 2 * i) [0..<60])
   \<and> last [0..<120] \<notin> set (map (\<lambda>i. 2 * i) [0..<60])"
proof -
  have l: "length [0..<120] = 120" by simp
  have m: "map (\<lambda>i. [0..<120] ! (i * 2)) [0..<60] = map (\<lambda>i. 2 * i) [0..<60]"
    by (rule map_cong) (simp_all add: mult.commute)
  have "last [0..<120] = 119" by (simp add: last_upt)
  moreover have "119 \<notin> set (map (\<lambda>i. 2 * i) [0..<60])"
  proof
    assume "119 \<in> set (map (\<lambda>i. 2 * i) [0..<60])"
    then obtain i :: nat where "2 * i = 119" by auto
    then show False by presburger
  qed
  ultimately show ?thesis
    using downsample_points_120[OF l] l m by simp
qed

section \<open>Properties of the fuel-station lookup\<close>




section \<open>Properties of the trip summary\<close>

text \<open>
  C9: the fuel computation never divides by zero. For every route the summary is computed
  without an exception; the distance in kilometres is the route's distance (0 when absent)
  divided by 1000; with a fuel efficiency above 0 the fuel needed is that distance divided
  by the efficiency, otherwise the fuel needed and the estimated cost are 0; the cost is
  the fuel needed times the fuel price.
\<close>

theorem trip_estimation_never_divides_by_zero:
  "\<exists>t. trip_estimation eff price r = Inr t
       \<and> distance_km t = (case distance r of None \<Rightarrow> 0 | Some d \<Rightarrow> d) / 1000
       \<and> (eff > 0 \<longrightarrow> fuel_needed t = distance_km t / eff)
       \<and> (\<not> eff > 0 \<longrightarrow> fuel_needed t = 0 \<and> estimated_cost t = 0)
       \<and> estimated_cost t = fuel_needed t * price"
  by (simp add: trip_estimation_def py_truediv_def Let_def)

theorem trip_estimation_never_divides_by_zero_witness:
  "trip_estimation 15 175
      \<lparr>geometry = ''g'', distance = Some 30000, duration = Some 1800, legs = []\<rparr> =
     Inr \<lparr>duration_seconds = 1800, distance_km = 30, fuel_needed = 2, estimated_cost = 350\<rparr>
   \<and> trip_estimation 0 175
      \<lparr>geometry = ''g'', distance = Some 30000, duration = Some 1800, legs = []\<rparr> =
     Inr \<lparr>duration_seconds = 1800, distance_km = 30, fuel_needed = 0, estimated_cost = 0\<rparr>"
proof -
  let ?r = "\<lparr>geometry = ''g'', distance = Some 30000, duration = Some 1800, legs = []\<rparr>"
  obtain t where t: "trip_estimation 15 175 ?r = Inr t" "distance_km t = 30000 / 1000"
    "fuel_needed t = distance_km t / 15" "estimated_cost t = fuel_needed t * 175"
    using trip_estimation_never_divides_by_zero[of 15 175 ?r] by auto
  obtain u where u: "trip_estimation 0 175 ?r = Inr u" "distance_km u = 30000 / 1000"
    "fuel_needed u = 0" "estimated_cost u = 0"
    using trip_estimation_never_divides_by_zero[of 0 175 ?r] by auto
  have dt: "duration_seconds t = 1800" using t(1)
    by (auto simp: trip_estimation_def py_truediv_def Let_def)
  have du: "duration_seconds u = 1800" using u(1)
    by (auto simp: trip_estimation_def py_truediv_def Let_def)
  have "t = \<lparr>duration_seconds = 1800, distance_km = 30, fuel_needed = 2, estimated_cost = 350\<rparr>"
    using t dt by (cases t) simp
  moreover
  have "u = \<lparr>duration_seconds = 1800, distance_km = 30, fuel_needed = 0, estimated_cost = 0\<rparr>"
    using u du by (cases u) simp
  ultimately show ?thesis using t(1) u(1) by simp
qed

section \<open>Properties of the fuel-station markers\<close>

lemma py_or_truthy:
  "(py_or a b = Some x \<and> x \<noteq> 0) =
     (x \<noteq> 0 \<and> (a = Some x \<or> ((a = None \<or> a = Some 0) \<and> b = Some x)))"
  by (cases a) (auto simp: py_or_def)

lemma truthy_iff: "truthy a = (\<exists>x. a = Some x \<and> x \<noteq> 0)"
  by (cases a) (simp_all add: truthy_def)

lemma station_markers_eq:
  "station_markers ss = map (the \<circ> station_marker) (filter (\<lambda>s. station_marker s \<noteq> None) ss)"
  by (induction ss) (auto split: option.splits)

text \<open>
  C10: a station gets a marker exactly when its resolved latitude and longitude are both
  present and nonzero, the resolved value being the element's own \<open>lat\<close> (\<open>lon\<close>) when that
  is present and nonzero and \<open>center.lat\<close> (\<open>center.lon\<close>) otherwise; the marker stands at
  that position and is labelled with \<open>tags.name\<close>, or with \<open>Fuel Station\<close> when there is
  none. A station without \<open>center\<close> whose latitude or longitude is 0 gets no marker. The
  markers drawn are those of the stations that get one, in the order of the stations.
\<close>

theorem station_marker_drawn_iff:
  "(station_marker s = Some mk \<longleftrightarrow>
      (\<exists>la lo. la \<noteq> 0 \<and> lo \<noteq> 0
         \<and> (lat s = Some la
              \<or> ((lat s = None \<or> lat s = Some 0) \<and> (\<exists>c. center s = Some c \<and> center_lat c = Some la)))
         \<and> (lon s = Some lo
              \<or> ((lon s = None \<or> lon s = Some 0) \<and> (\<exists>c. center s = Some c \<and> center_lon c = Some lo)))
         \<and> mk = \<lparr>location = (la, lo),
                  popup = (case Option.bind (tags s) (\<lambda>t. t ''name'') of
                             Some n \<Rightarrow> n
                           | None \<Rightarrow> ''Fuel Station'')\<rparr>))
   \<and> (center s = None \<and> (lat s = Some 0 \<or> lon s = Some 0) \<longrightarrow> station_marker s = None)
   \<and> fuel_station_markers (Some ss) =
       map (the \<circ> station_marker) (filter (\<lambda>s. station_marker s \<noteq> None) ss)
   \<and> fuel_station_markers None = []"
proof -
  let ?cla = "case center s of None \<Rightarrow> None | Some c \<Rightarrow> center_lat c"
  let ?clo = "case center s of None \<Rightarrow> None | Some c \<Rightarrow> center_lon c"
  let ?name = "case Option.bind (tags s) (\<lambda>t. t ''name'') of
                 Some n \<Rightarrow> n | None \<Rightarrow> ''Fuel Station''"
  have name: "(case tags s of None \<Rightarrow> ''Fuel Station''
               | Some t \<Rightarrow> (case t ''name'' of None \<Rightarrow> ''Fuel Station'' | Some n \<Rightarrow> n)) = ?name"
    by (cases "tags s") simp_all
  have cla: "(?cla = Some x) = (\<exists>c. center s = Some c \<and> center_lat c = Some x)" for x
    by (cases "center s") simp_all
  have clo: "(?clo = Some x) = (\<exists>c. center s = Some c \<and> center_lon c = Some x)" for x
    by (cases "center s") simp_all
  have sm: "station_marker s = Some mk \<longleftrightarrow>
      (\<exists>la lo. (py_or (lat s) ?cla = Some la \<and> la \<noteq> 0) \<and> (py_or (lon s) ?clo = Some lo \<and> lo \<noteq> 0)
          \<and> mk = \<lparr>location = (la, lo), popup = ?name\<rparr>)"
    unfolding station_marker_def Let_def name truthy_iff
    by (auto split: option.splits)
  have 1: "station_marker s = Some mk \<longleftrightarrow>
      (\<exists>la lo. la \<noteq> 0 \<and> lo \<noteq> 0
         \<and> (lat s = Some la
              \<or> ((lat s = None \<or> lat s = Some 0) \<and> (\<exists>c. center s = Some c \<and> center_lat c = Some la)))
         \<and> (lon s = Some lo
              \<or> ((lon s = None \<or> lon s = Some 0) \<and> (\<exists>c. center s = Some c \<and> center_lon c = Some lo)))
         \<and> mk = \<lparr>location = (la, lo), popup = ?name\<rparr>)"
    unfolding sm py_or_truthy cla clo by blast
  have 2: "center s = None \<and> (lat s = Some 0 \<or> lon s = Some 0) \<longrightarrow> station_marker s = None"
    by (auto simp: station_marker_def Let_def py_or_def truthy_def)
  have 3: "fuel_station_markers (Some ss) =
       map (the \<circ> station_marker) (filter (\<lambda>s. station_marker s \<noteq> None) ss)"
    by (simp add: fuel_station_markers_def station_markers_eq)
  have 4: "fuel_station_markers None = []" by (simp add: fuel_station_markers_def)
  from 1 2 3 4 show ?thesis by (intro conjI)
qed

theorem station_marker_drawn_iff_witness:
  "station_marker \<lparr>lat = Some 35, lon = Some 139, center = None,
                   tags = Some [''name'' \<mapsto> ''Shell'']\<rparr>
     = Some \<lparr>location = (35, 139), popup = ''Shell''\<rparr>
   \<and> station_marker \<lparr>lat = None, lon = None,
                     center = Some \<lparr>center_lat = Some 1, center_lon = Some 2\<rparr>, tags = None\<rparr>
     = Some \<lparr>location = (1, 2), popup = ''Fuel Station''\<rparr>
   \<and> station_marker \<lparr>lat = Some 0, lon = Some 10, center = None, tags = None\<rparr> = None"
proof -
  let ?s1 = "\<lparr>lat = Some 35, lon = Some 139, center = None,
              tags = Some [''name'' \<mapsto> ''Shell'']\<rparr>"
  let ?m1 = "\<lparr>location = (35, 139), popup = ''Shell''\<rparr>"
  let ?s2 = "\<lparr>lat = None, lon = None,
              center = Some \<lparr>center_lat = Some 1, center_lon = Some 2\<rparr>, tags = None\<rparr>"
  let ?m2 = "\<lparr>location = (1, 2), popup = ''Fuel Station''\<rparr>"
  let ?s3 = "\<lparr>lat = Some 0, lon = Some 10, center = None, tags = None\<rparr>"
  have a: "station_marker ?s1 = Some ?m1"
    using station_marker_drawn_iff[of ?s1 ?m1 "[]"] by simp
  have b: "station_marker ?s2 = Some ?m2"
    using station_marker_drawn_iff[of ?s2 ?m2 "[]"] by simp
  have c: "station_marker ?s3 = None"
    using station_marker_drawn_iff[of ?s3 ?m2 "[]"] by simp
  from a b c show ?thesis by (intro conjI)
qed

section \<open>Properties of the itinerary table\<close>

lemma final_instruction_unfold:
  "final_instruction n i stp =
     (let T = title (replace_underscore (raw_type stp));
          M = title (replace_underscore (raw_modifier stp));
          road = road_name stp
      in if T = ''Depart'' then (if road \<noteq> [] then ''Depart on '' @ road else ''Depart'')
         else if T = ''New Name'' then ''Continue onto '' @ road
         else if T = ''Arrive'' \<and> i + 1 < n then
           ''You have arrived at Waypoint '' @ str_nat (i + 1) @ ''.''
         else if T = ''Arrive'' then
           (case service_instruction stp of
              None \<Rightarrow> ''You have arrived at your final destination.''
            | Some x \<Rightarrow> x)
         else join '' '' (filter (\<lambda>part. part \<noteq> [])
                ([T, M] @ (if road \<noteq> [] then [''onto '' @ road] else []))))"
proof -
  have a: "(int i < int n - 1) = (i + 1 < n)" by auto
  have b: "str_int (int i + 1) = str_nat (i + 1)"
    by (simp add: str_int_def nat_add_distrib)
  have c: "(case maneuver stp of
              None \<Rightarrow> ''You have arrived at your final destination.''
            | Some m \<Rightarrow>
                (case instruction m of
                   None \<Rightarrow> ''You have arrived at your final destination.''
                 | Some i \<Rightarrow> i)) =
           (case service_instruction stp of
              None \<Rightarrow> ''You have arrived at your final destination.''
            | Some x \<Rightarrow> x)"
    by (cases "maneuver stp") (simp_all add: service_instruction_def)
  show ?thesis
    unfolding final_instruction_def raw_type_def[symmetric] raw_modifier_def[symmetric]
      road_name_def[symmetric] a b c Let_def
    by (rule refl)
qed

lemma title_known:
  "title (replace_underscore ''depart'') = ''Depart''"
  "title (replace_underscore ''new name'') = ''New Name''"
  "title (replace_underscore ''arrive'') = ''Arrive''"
  by code_simp+

lemma leg_rows_snd: "snd (leg_rows n i t sts) = t + length sts"
  by (induction sts arbitrary: t) (simp_all add: split_beta Let_def)

lemma upt_shift_Cons: "[t..<t + Suc k] = t # [Suc t..<Suc t + k]"
  by (simp add: upt_conv_Cons del: upt_Suc)

lemma leg_rows_Step: "map Step (fst (leg_rows n i t sts)) = [t..<t + length sts]"
proof (induction sts arbitrary: t)
  case Nil
  then show ?case by simp
next
  case (Cons s sts)
  have "map Step (fst (leg_rows n i t (s # sts))) = t # map Step (fst (leg_rows n i (Suc t) sts))"
    by (simp add: split_beta Let_def)
  also have "\<dots> = t # [Suc t..<Suc t + length sts]" by (simp only: Cons.IH)
  also have "\<dots> = [t..<t + length (s # sts)]"
    using upt_shift_Cons[of t "length sts"] by simp
  finally show ?case .
qed

lemma leg_rows_Instruction:
  "map Instruction (fst (leg_rows n i t sts)) = map (final_instruction n i) sts"
  by (induction sts arbitrary: t) (simp_all add: split_beta Let_def)

lemma route_rows_Step:
  "map Step (route_rows n i t ls) = [t..<t + sum_list (map (\<lambda>l. length (steps l)) ls)]"
proof (induction ls arbitrary: i t)
  case Nil
  then show ?case by simp
next
  case (Cons l ls)
  let ?a = "length (steps l)"
  let ?b = "sum_list (map (\<lambda>l. length (steps l)) ls)"
  have "map Step (route_rows n i t (l # ls)) =
        map Step (fst (leg_rows n i t (steps l)))
        @ map Step (route_rows n (i + 1) (snd (leg_rows n i t (steps l))) ls)"
    by (simp add: split_beta)
  also have "\<dots> = [t..<t + ?a] @ [t + ?a..<t + ?a + ?b]"
    by (simp only: leg_rows_Step leg_rows_snd Cons.IH)
  also have "\<dots> = [t..<t + (?a + ?b)]"
    using upt_add_eq_append[of t "t + ?a" ?b] by (simp add: add.assoc)
  finally show ?case by simp
qed

lemma route_rows_Instruction:
  "map Instruction (route_rows n i t ls) =
     concat (map (\<lambda>(j, l). map (final_instruction n j) (steps l)) (enumerate i ls))"
proof (induction ls arbitrary: i t)
  case Nil
  then show ?case by simp
next
  case (Cons l ls)
  have "map Instruction (route_rows n i t (l # ls)) =
        map Instruction (fst (leg_rows n i t (steps l)))
        @ map Instruction (route_rows n (i + 1) (snd (leg_rows n i t (steps l))) ls)"
    by (simp add: split_beta)
  also have "\<dots> = map (final_instruction n i) (steps l)
        @ concat (map (\<lambda>(j, l). map (final_instruction n j) (steps l)) (enumerate (i + 1) ls))"
    by (simp only: leg_rows_Instruction Cons.IH)
  finally show ?case by simp
qed

text \<open>
  C7: the instruction of a step follows the precedence of the claim. A \<open>depart\<close> step reads
  \<open>Depart on <road>\<close>, or \<open>Depart\<close> without a road name; a \<open>new name\<close> step reads
  \<open>Continue onto <road>\<close>; an \<open>arrive\<close> step on a leg that is not the last reads
  \<open>You have arrived at Waypoint <n>.\<close> with the 1-based index of the leg; an \<open>arrive\<close> step
  on the last leg reads the instruction of the service, or
  \<open>You have arrived at your final destination.\<close> when there is none; every other step reads
  its title-cased type and modifier and \<open>onto <road>\<close>, joined by single spaces, the empty
  parts and the suffix of an empty road name left out. The rows follow the legs and their
  steps in order, and their numbers are \<open>1, 2, ...\<close> up to the number of steps of the
  route, across the legs.
\<close>

theorem create_route_details_df_instructions:
  "(raw_type stp = ''depart'' \<longrightarrow>
      final_instruction n i stp =
        (if road_name stp \<noteq> [] then ''Depart on '' @ road_name stp else ''Depart''))
   \<and> (raw_type stp = ''new name'' \<longrightarrow>
      final_instruction n i stp = ''Continue onto '' @ road_name stp)
   \<and> (raw_type stp = ''arrive'' \<and> i + 1 < n \<longrightarrow>
      final_instruction n i stp = ''You have arrived at Waypoint '' @ str_nat (i + 1) @ ''.'')
   \<and> (raw_type stp = ''arrive'' \<and> \<not> i + 1 < n \<longrightarrow>
      final_instruction n i stp =
        (case service_instruction stp of
           Some x \<Rightarrow> x
         | None \<Rightarrow> ''You have arrived at your final destination.''))
   \<and> (title (replace_underscore (raw_type stp)) \<notin> {''Depart'', ''New Name'', ''Arrive''} \<longrightarrow>
      final_instruction n i stp =
        join '' '' (filter (\<lambda>part. part \<noteq> [])
          ([title (replace_underscore (raw_type stp)),
            title (replace_underscore (raw_modifier stp))]
           @ (if road_name stp \<noteq> [] then [''onto '' @ road_name stp] else []))))
   \<and> (title (replace_underscore (raw_type stp)) \<notin> {''Depart'', ''New Name'', ''Arrive'', []}
        \<and> title (replace_underscore (raw_modifier stp)) \<noteq> [] \<and> road_name stp \<noteq> [] \<longrightarrow>
      final_instruction n i stp =
        title (replace_underscore (raw_type stp)) @ '' ''
        @ title (replace_underscore (raw_modifier stp)) @ '' onto '' @ road_name stp)
   \<and> (title (replace_underscore (raw_type stp)) \<notin> {''Depart'', ''New Name'', ''Arrive'', []}
        \<and> title (replace_underscore (raw_modifier stp)) \<noteq> [] \<and> road_name stp = [] \<longrightarrow>
      final_instruction n i stp =
        title (replace_underscore (raw_type stp)) @ '' ''
        @ title (replace_underscore (raw_modifier stp)))
   \<and> (title (replace_underscore (raw_type stp)) \<notin> {''Depart'', ''New Name'', ''Arrive'', []}
        \<and> title (replace_underscore (raw_modifier stp)) = [] \<and> road_name stp \<noteq> [] \<longrightarrow>
      final_instruction n i stp =
        title (replace_underscore (raw_type stp)) @ '' onto '' @ road_name stp)
   \<and> (title (replace_underscore (raw_type stp)) \<notin> {''Depart'', ''New Name'', ''Arrive'', []}
        \<and> title (replace_underscore (raw_modifier stp)) = [] \<and> road_name stp = [] \<longrightarrow>
      final_instruction n i stp = title (replace_underscore (raw_type stp)))
   \<and> map Step (create_route_details_df r) = [1..<Suc (step_count r)]
   \<and> map Instruction (create_route_details_df r) =
       concat (map (\<lambda>(j, l). map (final_instruction (length (legs r)) j) (steps l))
                   (enumerate 0 (legs r)))"
proof -
  note u = final_instruction_unfold[of n i stp]
  have 1: "raw_type stp = ''depart'' \<longrightarrow>
      final_instruction n i stp =
        (if road_name stp \<noteq> [] then ''Depart on '' @ road_name stp else ''Depart'')"
    by (simp add: u title_known)
  have 2: "raw_type stp = ''new name'' \<longrightarrow>
      final_instruction n i stp = ''Continue onto '' @ road_name stp"
    by (simp add: u title_known)
  have 3: "raw_type stp = ''arrive'' \<and> i + 1 < n \<longrightarrow>
      final_instruction n i stp = ''You have arrived at Waypoint '' @ str_nat (i + 1) @ ''.''"
    by (simp add: u title_known)
  have 4: "raw_type stp = ''arrive'' \<and> \<not> i + 1 < n \<longrightarrow>
      final_instruction n i stp =
        (case service_instruction stp of
           Some x \<Rightarrow> x
         | None \<Rightarrow> ''You have arrived at your final destination.'')"
    by (simp add: u title_known split: option.split)
  have 5: "title (replace_underscore (raw_type stp)) \<notin> {''Depart'', ''New Name'', ''Arrive''} \<longrightarrow>
      final_instruction n i stp =
        join '' '' (filter (\<lambda>part. part \<noteq> [])
          ([title (replace_underscore (raw_type stp)),
            title (replace_underscore (raw_modifier stp))]
           @ (if road_name stp \<noteq> [] then [''onto '' @ road_name stp] else [])))"
    by (simp add: u Let_def)
  have 6: "title (replace_underscore (raw_type stp)) \<notin> {''Depart'', ''New Name'', ''Arrive'', []}
        \<and> title (replace_underscore (raw_modifier stp)) \<noteq> [] \<and> road_name stp \<noteq> [] \<longrightarrow>
      final_instruction n i stp =
        title (replace_underscore (raw_type stp)) @ '' ''
        @ title (replace_underscore (raw_modifier stp)) @ '' onto '' @ road_name stp"
    by (simp add: u Let_def)
  have 7: "title (replace_underscore (raw_type stp)) \<notin> {''Depart'', ''New Name'', ''Arrive'', []}
        \<and> title (replace_underscore (raw_modifier stp)) \<noteq> [] \<and> road_name stp = [] \<longrightarrow>
      final_instruction n i stp =
        title (replace_underscore (raw_type stp)) @ '' ''
        @ title (replace_underscore (raw_modifier stp))"
    by (simp add: u Let_def)
  have 8: "title (replace_underscore (raw_type stp)) \<notin> {''Depart'', ''New Name'', ''Arrive'', []}
        \<and> title (replace_underscore (raw_modifier stp)) = [] \<and> road_name stp \<noteq> [] \<longrightarrow>
      final_instruction n i stp =
        title (replace_underscore (raw_type stp)) @ '' onto '' @ road_name stp"
    by (simp add: u Let_def)
  have 9: "title (replace_underscore (raw_type stp)) \<notin> {''Depart'', ''New Name'', ''Arrive'', []}
        \<and> title (replace_underscore (raw_modifier stp)) = [] \<and> road_name stp = [] \<longrightarrow>
      final_instruction n i stp = title (replace_underscore (raw_type stp))"
    by (simp add: u Let_def)
  have 10: "map Step (create_route_details_df r) = [1..<Suc (step_count r)]"
    by (simp add: create_route_details_df_def route_rows_Step step_count_def)
  have 11: "map Instruction (create_route_details_df r) =
       concat (map (\<lambda>(j, l). map (final_instruction (length (legs r)) j) (steps l))
                   (enumerate 0 (legs r)))"
    by (simp add: create_route_details_df_def route_rows_Instruction)
  from 1 2 3 4 5 6 7 8 9 10 11 show ?thesis by (intro conjI)
qed


theorem create_route_details_df_instructions_witness:
  "map Step (create_route_details_df
      \<lparr>geometry = ''g'', distance = Some 5000, duration = Some 600,
       legs = [\<lparr>steps = [
                 \<lparr>maneuver = Some \<lparr>mtype = Some ''depart'', modifier = None, instruction = None\<rparr>,
                  name = Some ''Main St'', step_distance = 100, step_duration = 10\<rparr>,
                 \<lparr>maneuver = Some \<lparr>mtype = Some ''turn'', modifier = Some ''left'', instruction = None\<rparr>,
                  name = Some ''Oak Ave'', step_distance = 200, step_duration = 20\<rparr>,
                 \<lparr>maneuver = Some \<lparr>mtype = Some ''arrive'', modifier = None, instruction = None\<rparr>,
                  name = Some ''Oak Ave'', step_distance = 0, step_duration = 0\<rparr>]\<rparr>,
               \<lparr>steps = [
                 \<lparr>maneuver = Some \<lparr>mtype = Some ''new name'', modifier = None, instruction = None\<rparr>,
                  name = Some ''Elm St'', step_distance = 300, step_duration = 30\<rparr>,
                 \<lparr>maneuver = Some \<lparr>mtype = Some ''arrive'', modifier = None, instruction = None\<rparr>,
                  name = None, step_distance = 0, step_duration = 0\<rparr>]\<rparr>]\<rparr>)
     = [1, 2, 3, 4, 5]
   \<and> map Instruction (create_route_details_df
      \<lparr>geometry = ''g'', distance = Some 5000, duration = Some 600,
       legs = [\<lparr>steps = [
                 \<lparr>maneuver = Some \<lparr>mtype = Some ''depart'', modifier = None, instruction = None\<rparr>,
                  name = Some ''Main St'', step_distance = 100, step_duration = 10\<rparr>,
                 \<lparr>maneuver = Some \<lparr>mtype = Some ''turn'', modifier = Some ''left'', instruction = None\<rparr>,
                  name = Some ''Oak Ave'', step_distance = 200, step_duration = 20\<rparr>,
                 \<lparr>maneuver = Some \<lparr>mtype = Some ''arrive'', modifier = None, instruction = None\<rparr>,
                  name = Some ''Oak Ave'', step_distance = 0, step_duration = 0\<rparr>]\<rparr>,
               \<lparr>steps = [
                 \<lparr>maneuver = Some \<lparr>mtype = Some ''new name'', modifier = None, instruction = None\<rparr>,
                  name = Some ''Elm St'', step_distance = 300, step_duration = 30\<rparr>,
                 \<lparr>maneuver = Some \<lparr>mtype = Some ''arrive'', modifier = None, instruction = None\<rparr>,
                  name = None, step_distance = 0, step_duration = 0\<rparr>]\<rparr>]\<rparr>)
     = [''Depart on Main St'', ''Turn Left onto Oak Ave'', ''You have arrived at Waypoint 1.'',
        ''Continue onto Elm St'', ''You have arrived at your final destination.'']"
proof -
  let ?s1 = "\<lparr>maneuver = Some \<lparr>mtype = Some ''depart'', modifier = None, instruction = None\<rparr>,
              name = Some ''Main St'', step_distance = 100, step_duration = 10\<rparr>"
  let ?s2 = "\<lparr>maneuver = Some \<lparr>mtype = Some ''turn'', modifier = Some ''left'', instruction = None\<rparr>,
              name = Some ''Oak Ave'', step_distance = 200, step_duration = 20\<rparr>"
  let ?s3 = "\<lparr>maneuver = Some \<lparr>mtype = Some ''arrive'', modifier = None, instruction = None\<rparr>,
              name = Some ''Oak Ave'', step_distance = 0, step_duration = 0\<rparr>"
  let ?s4 = "\<lparr>maneuver = Some \<lparr>mtype = Some ''new name'', modifier = None, instruction = None\<rparr>,
              name = Some ''Elm St'', step_distance = 300, step_duration = 30\<rparr>"
  let ?s5 = "\<lparr>maneuver = Some \<lparr>mtype = Some ''arrive'', modifier = None, instruction = None\<rparr>,
              name = None, step_distance = 0, step_duration = 0\<rparr>"
  let ?r = "\<lparr>geometry = ''g'', distance = Some 5000, duration = Some 600,
             legs = [\<lparr>steps = [?s1, ?s2, ?s3]\<rparr>, \<lparr>steps = [?s4, ?s5]\<rparr>]\<rparr>"
  have tt: "title (replace_underscore ''turn'') = ''Turn''"
    "title (replace_underscore ''left'') = ''Left''"
    "title (replace_underscore []) = []"
    by code_simp+
  have one: "str_nat (Suc 0) = ''1''" by code_simp
  have f1: "final_instruction 2 0 ?s1 = ''Depart on Main St''"
    using create_route_details_df_instructions[of ?s1 2 0 ?r, THEN conjunct1]
    by (simp add: raw_type_def road_name_def)
  have f2: "final_instruction 2 0 ?s2 = ''Turn Left onto Oak Ave''"
    using create_route_details_df_instructions[of ?s2 2 0 ?r,
        THEN conjunct2, THEN conjunct2, THEN conjunct2, THEN conjunct2, THEN conjunct2,
        THEN conjunct1]
    by (simp add: raw_type_def raw_modifier_def road_name_def tt)
  have f3: "final_instruction 2 0 ?s3 = ''You have arrived at Waypoint 1.''"
    using create_route_details_df_instructions[of ?s3 2 0 ?r,
        THEN conjunct2, THEN conjunct2, THEN conjunct1]
    by (simp add: raw_type_def one)
  have f4: "final_instruction 2 1 ?s4 = ''Continue onto Elm St''"
    using create_route_details_df_instructions[of ?s4 2 1 ?r, THEN conjunct2, THEN conjunct1]
    by (simp add: raw_type_def road_name_def)
  have f5: "final_instruction 2 1 ?s5 = ''You have arrived at your final destination.''"
    using create_route_details_df_instructions[of ?s5 2 1 ?r,
        THEN conjunct2, THEN conjunct2, THEN conjunct2, THEN conjunct1]
    by (simp add: raw_type_def service_instruction_def)
  note tail = create_route_details_df_instructions[of ?s1 2 0 ?r,
        THEN conjunct2, THEN conjunct2, THEN conjunct2, THEN conjunct2, THEN conjunct2,
        THEN conjunct2, THEN conjunct2, THEN conjunct2, THEN conjunct2]
  have n: "map Step (create_route_details_df ?r) = [1, 2, 3, 4, 5]"
    using tail[THEN conjunct1] by (simp add: step_count_def upt_rec)
  have i: "map Instruction (create_route_details_df ?r) =
      [final_instruction 2 0 ?s1, final_instruction 2 0 ?s2, final_instruction 2 0 ?s3,
       final_instruction 2 1 ?s4, final_instruction 2 1 ?s5]"
    using tail[THEN conjunct2] by (simp add: numeral_2_eq_2)
  show ?thesis
    unfolding n i f1 f2 f3 f4 f5 by simp
qed

section \<open>Properties of the submit handler\<close>

lemma get_route_nonempty: "get_route rt cs alt = (Some rs, es) \<Longrightarrow> rs \<noteq> []"
  by (auto simp: get_route_def split: route_response.splits option.splits list.splits)

lemma fetch_routes_success:
  assumes "2 \<le> length coords"
    and "get_route (router env) coords (show_alternatives inp) = (Some rs, es)"
  shows "fetch_routes env inp coords st =
           (st\<lparr>routes := list_sort duration_key rs, selected_route_index := 0,
               all_coords := Some coords\<rparr>, es)"
  using assms by (simp add: fetch_routes_def)

lemma sorted_first_least:
  assumes "sorted (map f ys)" "y \<in> set ys"
  shows "f (ys ! 0) \<le> f y"
proof -
  from assms(2) obtain j where j: "j < length ys" "ys ! j = y"
    by (auto simp: in_set_conv_nth)
  then have pos: "0 < length ys" by auto
  from assms(1) j have "map f ys ! 0 \<le> map f ys ! j"
    by (intro sorted_nth_mono) simp_all
  with j pos show ?thesis by simp
qed

text \<open>
  C1: when the routing client returns a route set, the set that the submit stores is the
  stable ascending sort of the returned one by duration: it is a permutation of the
  returned list, its durations do not decrease, the routes of each duration keep the order
  in which the service gave them, the selected index is 0, and the route at that index has
  the least duration.
\<close>

theorem submit_stores_stable_sort:
  assumes "collect_coords env inp st = (st1, coords, es1)"
    and "2 \<le> length coords"
    and "get_route (router env) coords (show_alternatives inp) = (Some rs, es2)"
    and "1 < length rs"
  shows "mset (routes (fst (submit env inp st))) = mset rs
       \<and> sorted (map duration_key (routes (fst (submit env inp st))))
       \<and> (\<forall>k. filter (\<lambda>r. duration_key r = k) (routes (fst (submit env inp st))) =
                filter (\<lambda>r. duration_key r = k) rs)
       \<and> selected_route_index (fst (submit env inp st)) = 0
       \<and> (\<forall>r\<in>set rs. duration_key (routes (fst (submit env inp st))
                                      ! selected_route_index (fst (submit env inp st)))
                          \<le> duration_key r)"
proof -
  have s: "fst (submit env inp st) =
      st1\<lparr>routes := list_sort duration_key rs, selected_route_index := 0,
          all_coords := Some coords\<rparr>"
    using assms(1) fetch_routes_success[OF assms(2,3)] by (simp add: submit_def)
  have r: "routes (fst (submit env inp st)) = sort_key duration_key rs"
    and i: "selected_route_index (fst (submit env inp st)) = 0"
    by (simp_all add: s list_sort_def)
  have a: "mset (sort_key duration_key rs) = mset rs" by simp
  have b: "sorted (map duration_key (sort_key duration_key rs))" by (rule sorted_sort_key)
  have c: "\<forall>k. filter (\<lambda>r. duration_key r = k) (sort_key duration_key rs) =
                filter (\<lambda>r. duration_key r = k) rs"
    by (simp add: sort_key_stable)
  have d: "\<forall>x\<in>set rs. duration_key (sort_key duration_key rs ! 0) \<le> duration_key x"
  proof
    fix x assume "x \<in> set rs"
    then have "x \<in> set (sort_key duration_key rs)" by simp
    with b show "duration_key (sort_key duration_key rs ! 0) \<le> duration_key x"
      by (rule sorted_first_least)
  qed
  from a b c d show ?thesis unfolding r i by simp
qed

theorem submit_stores_stable_sort_witness:
  "map geometry (routes (fst (submit
      (example_env (RouteData (Some [example_route ''a'' 300, example_route ''b'' 100,
                                     example_route ''c'' 100, example_route ''d'' 50])))
      example_inputs initial_state))) = [''d'', ''b'', ''c'', ''a'']
   \<and> selected_route_index (fst (submit
      (example_env (RouteData (Some [example_route ''a'' 300, example_route ''b'' 100,
                                     example_route ''c'' 100, example_route ''d'' 50])))
      example_inputs initial_state)) = 0"
proof -
  let ?rs = "[example_route ''a'' 300, example_route ''b'' 100,
              example_route ''c'' 100, example_route ''d'' 50]"
  let ?env = "example_env (RouteData (Some ?rs))"
  let ?cs = "[(139, 35), (140, 36)] :: coord list"
  let ?st' = "fst (submit ?env example_inputs initial_state)"
  have c: "collect_coords ?env example_inputs initial_state =
             (initial_state\<lparr>all_places := Some [''Start'', ''End'']\<rparr>, ?cs, [])"
    by (simp add: collect_coords_def example_inputs_def)
  have g: "get_route (router ?env) ?cs (show_alternatives example_inputs) =
             (Some ?rs, [RoutingRequest ?cs True])"
    by (simp add: get_route_def example_env_def example_inputs_def)
  note t = submit_stores_stable_sort[OF c _ g]
  have t': "mset (routes ?st') = mset ?rs
       \<and> sorted (map duration_key (routes ?st'))
       \<and> (\<forall>k. filter (\<lambda>r. duration_key r = k) (routes ?st') =
                filter (\<lambda>r. duration_key r = k) ?rs)
       \<and> selected_route_index ?st' = 0
       \<and> (\<forall>r\<in>set ?rs. duration_key (routes ?st' ! selected_route_index ?st') \<le> duration_key r)"
    by (rule t) simp_all
  have "routes ?st' = list_sort duration_key ?rs"
    by (simp add: submit_def c fetch_routes_def g)
  also have "\<dots> = [example_route ''d'' 50, example_route ''b'' 100,
                     example_route ''c'' 100, example_route ''a'' 300]"
    by (simp add: list_sort_def duration_key_def example_route_def)
  finally have e: "routes ?st' = [example_route ''d'' 50, example_route ''b'' 100,
                                  example_route ''c'' 100, example_route ''a'' 300]" .
  from t' have "selected_route_index ?st' = 0" by simp
  with e show ?thesis by (simp add: example_route_def)
qed

lemma get_coords_no_routing: "RoutingRequest cs alt \<notin> set (snd (get_coords g p))"
  by (auto simp: get_coords_def split: geo_response.splits list.splits option.splits)

lemma geocode_places_no_routing:
  "RoutingRequest cs alt \<notin> set (snd (snd (geocode_places g ps acc)))"
proof (induction ps arbitrary: acc)
  case Nil
  then show ?case by simp
next
  case (Cons p ps)
  obtain res es where r: "get_coords g p = (res, es)" by (cases "get_coords g p")
  have es: "RoutingRequest cs alt \<notin> set es"
    using get_coords_no_routing[of cs alt g p] r by simp
  show ?case
  proof (cases res)
    case None
    with r es show ?thesis by simp
  next
    case (Some c)
    obtain la lo where c: "c = (la, lo)" by (cases c)
    from Cons.IH[of "acc @ [(lo, la)]"] r Some c es show ?thesis
      by (simp add: split_beta)
  qed
qed

lemma geocode_places_failure:
  assumes "\<exists>p\<in>set ps. fst (get_coords g p) = None"
  shows "\<not> fst (geocode_places g ps acc)
       \<and> (\<exists>m. Show (SidebarError m) \<in> set (snd (snd (geocode_places g ps acc))))"
  using assms
proof (induction ps arbitrary: acc)
  case Nil
  then show ?case by simp
next
  case (Cons p ps)
  obtain res es where r: "get_coords g p = (res, es)" by (cases "get_coords g p")
  show ?case
  proof (cases res)
    case None
    with r show ?thesis by auto
  next
    case (Some c)
    obtain la lo where c: "c = (la, lo)" by (cases c)
    from Some r Cons.prems have "\<exists>q\<in>set ps. fst (get_coords g q) = None" by auto
    from Cons.IH[OF this, of "acc @ [(lo, la)]"] r Some c show ?thesis
      by (auto simp: split_beta)
  qed
qed

lemma render_routes: "routes (fst (render inp st)) = routes st"
  by (auto simp: render_def Let_def split: sum.splits)

text \<open>
  C6: on a submit in name mode where the geocoding of some place of the sequence fails, no
  routing request is sent, an error naming the place is shown in the sidebar, and the
  stored route set, the selected index and the stored coordinates stay as they were; the
  route set is still the same after the whole run of the page.
\<close>

theorem submit_geocoding_failure_keeps_routes:
  assumes "input_method inp = PlaceName"
    and "\<exists>p\<in>set ([start_place inp] @ destinations st @ [end_place inp]).
           fst (get_coords (geocoder env) p) = None"
  shows "(\<forall>cs alt. RoutingRequest cs alt \<notin> set (snd (submit env inp st)))
       \<and> (\<exists>m. Show (SidebarError m) \<in> set (snd (submit env inp st)))
       \<and> routes (fst (submit env inp st)) = routes st
       \<and> selected_route_index (fst (submit env inp st)) = selected_route_index st
       \<and> all_coords (fst (submit env inp st)) = all_coords st
       \<and> (\<forall>cs alt. RoutingRequest cs alt \<notin> set (effects (main env inp GetRoute st)))
       \<and> routes (state (main env inp GetRoute st)) = routes st"
proof -
  let ?ps = "[start_place inp] @ destinations st @ [end_place inp]"
  obtain v cs es where gp: "geocode_places (geocoder env) ?ps [] = (v, cs, es)"
    by (cases "geocode_places (geocoder env) ?ps []")
  from geocode_places_failure[OF assms(2), of "[]"] gp
  have v: "\<not> v" and m: "\<exists>m. Show (SidebarError m) \<in> set es" by simp_all
  have nr: "\<forall>cs alt. RoutingRequest cs alt \<notin> set es"
    using geocode_places_no_routing[of _ _ "geocoder env" ?ps "[]"] gp by simp
  have cc: "collect_coords env inp st = (st\<lparr>all_places := Some ?ps\<rparr>, [], es)"
    using assms(1) gp v by (simp add: collect_coords_def)
  have s: "submit env inp st =
      (st\<lparr>all_places := Some ?ps\<rparr>,
       es @ [Show (SidebarWarning ''Please provide at least a start and end location.'')])"
    by (simp add: submit_def cc fetch_routes_def)
  have mp: "main env inp GetRoute st =
      \<lparr>state = fst (render inp (fst (submit env inp st))),
       effects = snd (submit env inp st),
       outcome = snd (render inp (fst (submit env inp st)))\<rparr>"
    using assms(1) by (simp add: main_def main_pass_def split_beta)
  have 1: "\<forall>cs alt. RoutingRequest cs alt \<notin> set (snd (submit env inp st))"
    using nr by (simp add: s)
  have 2: "\<exists>m. Show (SidebarError m) \<in> set (snd (submit env inp st))"
    using m by (auto simp: s)
  have 3: "routes (fst (submit env inp st)) = routes st"
    "selected_route_index (fst (submit env inp st)) = selected_route_index st"
    "all_coords (fst (submit env inp st)) = all_coords st"
    by (simp_all add: s)
  have 4: "\<forall>cs alt. RoutingRequest cs alt \<notin> set (effects (main env inp GetRoute st))"
    using 1 by (simp add: mp)
  have 5: "routes (state (main env inp GetRoute st)) = routes st"
    by (simp add: mp render_routes 3)
  from 1 2 3 4 5 show ?thesis by (intro conjI)
qed


theorem submit_geocoding_failure_keeps_routes_witness:
  "snd (submit example_named_env example_named_inputs example_state) =
     [GeocodeRequest ''Tokyo'', GeocodeRequest ''Nowhere'',
      Show (SidebarError (''Could not find '' @ [CHR 0x27] @ ''Nowhere'' @ [CHR 0x27]
                          @ ''. Route calculation cancelled.'')),
      Show (SidebarWarning ''Please provide at least a start and end location.'')]
   \<and> routes (fst (submit example_named_env example_named_inputs example_state)) =
       [example_route ''a'' 100, example_route ''b'' 200]
   \<and> selected_route_index (fst (submit example_named_env example_named_inputs example_state)) = 1
   \<and> all_coords (fst (submit example_named_env example_named_inputs example_state)) =
       Some [(139, 35), (140, 36)]
   \<and> routes (state (main example_named_env example_named_inputs GetRoute example_state)) =
       [example_route ''a'' 100, example_route ''b'' 200]"
proof -
  have m: "input_method example_named_inputs = PlaceName"
    by (simp add: example_named_inputs_def)
  have f: "\<exists>p\<in>set ([start_place example_named_inputs] @ destinations example_state
                      @ [end_place example_named_inputs]).
             fst (get_coords (geocoder example_named_env) p) = None"
    by (simp add: example_named_inputs_def example_state_def example_named_env_def
        get_coords_def)
  note t = submit_geocoding_failure_keeps_routes[OF m f]
  have e: "snd (submit example_named_env example_named_inputs example_state) =
     [GeocodeRequest ''Tokyo'', GeocodeRequest ''Nowhere'',
      Show (SidebarError (''Could not find '' @ [CHR 0x27] @ ''Nowhere'' @ [CHR 0x27]
                          @ ''. Route calculation cancelled.'')),
      Show (SidebarWarning ''Please provide at least a start and end location.'')]"
    by (simp add: submit_def collect_coords_def fetch_routes_def get_coords_def
        example_named_inputs_def example_inputs_def example_state_def example_named_env_def)
  have s: "routes example_state = [example_route ''a'' 100, example_route ''b'' 200]"
    "selected_route_index example_state = 1"
    "all_coords example_state = Some [(139, 35), (140, 36)]"
    by (simp_all add: example_state_def)
  from t e show ?thesis unfolding s by simp
qed

section \<open>The selected index in the reachable states\<close>

lemma collect_coords_keeps:
  "routes (fst (collect_coords env inp st)) = routes st"
  "selected_route_index (fst (collect_coords env inp st)) = selected_route_index st"
  by (simp_all add: collect_coords_def split_beta Let_def del: geocode_places.simps
      split: input_method.splits)

lemma length_list_sort: "length (list_sort f xs) = length xs"
  by (simp add: list_sort_def)

lemma list_sort_Nil_iff: "(list_sort f xs = []) = (xs = [])"
  by (metis length_list_sort length_0_conv)

lemma fetch_routes_index_valid:
  assumes "index_valid st"
  shows "index_valid (fst (fetch_routes env inp cs st))"
proof (cases "2 \<le> length cs")
  case False
  with assms show ?thesis by (simp add: fetch_routes_def)
next
  case True
  obtain res es where g: "get_route (router env) cs (show_alternatives inp) = (res, es)"
    by (cases "get_route (router env) cs (show_alternatives inp)")
  show ?thesis
  proof (cases res)
    case None
    with True g show ?thesis by (simp add: fetch_routes_def index_valid_def)
  next
    case (Some rs)
    with g have "rs \<noteq> []" by (auto dest: get_route_nonempty)
    with True g Some show ?thesis
      by (simp add: fetch_routes_def index_valid_def length_list_sort)
  qed
qed

lemma submit_index_valid:
  assumes "index_valid st"
  shows "index_valid (fst (submit env inp st))"
proof -
  have "index_valid (fst (collect_coords env inp st))"
    using assms by (simp add: index_valid_def collect_coords_keeps)
  then have "index_valid (fst (fetch_routes env inp (fst (snd (collect_coords env inp st)))
                                 (fst (collect_coords env inp st))))"
    by (rule fetch_routes_index_valid)
  then show ?thesis by (simp add: submit_def split_beta)
qed

lemma radio_in_range: "radio n i c = Inr j \<Longrightarrow> j < n"
  by (auto simp: radio_def split: if_splits option.splits)

lemma render_index_valid:
  assumes "index_valid st"
  shows "index_valid (fst (render inp st))"
proof (cases "routes st = [] \<or> all_coords st = None \<or> all_places st = None")
  case True
  with assms show ?thesis by (auto simp: render_def)
next
  case False
  show ?thesis
  proof (cases "length (routes st) > 1")
    case True
    show ?thesis
    proof (cases "radio (length (routes st)) (selected_route_index st) (radio_choice inp)")
      case (Inl e)
      with False True assms show ?thesis by (simp add: render_def)
    next
      case (Inr j)
      then have "j < length (routes st)" by (rule radio_in_range)
      with False True Inr show ?thesis
        by (auto simp: render_def Let_def index_valid_def split: sum.splits)
    qed
  next
    case le: False
    with False assms show ?thesis
      by (auto simp: render_def Let_def index_valid_def split: sum.splits)
  qed
qed

lemma main_pass_index_valid:
  assumes "index_valid st"
  shows "index_valid (state (main_pass env inp clicked st))"
proof -
  let ?st0 = "case input_method inp of Coordinates \<Rightarrow> st\<lparr>destinations := []\<rparr> | PlaceName \<Rightarrow> st"
  have 0: "index_valid ?st0"
    using assms by (simp add: index_valid_def split: input_method.splits)
  have 1: "index_valid (fst (if clicked then submit env inp ?st0 else (?st0, [])))"
    using 0 by (simp add: submit_index_valid)
  have "index_valid (fst (render inp (fst (if clicked then submit env inp ?st0 else (?st0, [])))))"
    using 1 by (rule render_index_valid)
  then show ?thesis by (simp add: main_pass_def split_beta Let_def)
qed

lemma main_index_valid:
  assumes "index_valid st"
  shows "index_valid (state (main env inp btn st))"
proof -
  have d: "index_valid (st\<lparr>destinations := ds\<rparr>)" for ds
    using assms by (simp add: index_valid_def)
  have a: "index_valid (st\<lparr>show_add_destination_input := b\<rparr>)" for b
    using assms by (simp add: index_valid_def)
  have da: "index_valid (st\<lparr>destinations := ds, show_add_destination_input := b\<rparr>)" for ds b
    using assms by (simp add: index_valid_def)
  show ?thesis
    by (cases btn) (simp_all add: main_def main_pass_index_valid assms d a da Let_def)
qed

lemma reachable_index_valid: "reachable st \<Longrightarrow> index_valid st"
proof (induction rule: reachable.induct)
  case reachable_initial
  show ?case by (simp add: index_valid_def initial_state_def)
next
  case (reachable_run st env inp btn)
  then show ?case by (simp add: main_index_valid)
qed

lemma reachable_run_all: "reachable st \<Longrightarrow> reachable (run_all runs st)"
proof (induction runs arbitrary: st)
  case Nil
  then show ?case by simp
next
  case (Cons r runs)
  obtain env inp btn where r: "r = (env, inp, btn)" by (cases r)
  from Cons.prems have "reachable (state (main env inp btn st))" by (rule reachable_run)
  then show ?case using Cons.IH r by simp
qed

lemma collect_coords_all_places: "all_places (fst (collect_coords env inp st)) \<noteq> None"
  by (simp add: collect_coords_def split_beta Let_def del: geocode_places.simps
      split: input_method.splits)

lemma collect_coords_cleared_destinations:
  "snd (collect_coords env inp
          (case input_method inp of Coordinates \<Rightarrow> st\<lparr>destinations := []\<rparr> | PlaceName \<Rightarrow> st)) =
   snd (collect_coords env inp st)"
  by (cases "input_method inp") (simp_all add: collect_coords_def)

lemma submit_success:
  assumes "2 \<le> length (fst (snd (collect_coords env inp st)))"
    and "get_route (router env) (fst (snd (collect_coords env inp st))) (show_alternatives inp)
           = (Some rs, es)"
  shows "fst (submit env inp st) =
           (fst (collect_coords env inp st))
             \<lparr>routes := list_sort duration_key rs, selected_route_index := 0,
              all_coords := Some (fst (snd (collect_coords env inp st)))\<rparr>"
  using fetch_routes_success[OF assms, of "fst (collect_coords env inp st)"]
  by (simp add: submit_def split_beta)

lemma render_state:
  assumes "routes st \<noteq> []" "all_coords st \<noteq> None" "all_places st \<noteq> None"
    and "selected_route_index st < length (routes st)"
  shows "fst (render inp st) =
           st\<lparr>selected_route_index :=
                (if 1 < length (routes st) then
                   (case radio_choice inp of
                      Some c \<Rightarrow> (if c < length (routes st) then c else selected_route_index st)
                    | None \<Rightarrow> selected_route_index st)
                 else selected_route_index st)\<rparr>"
  using assms
  by (auto simp: render_def radio_def Let_def split: sum.splits option.splits)

lemma main_GetRoute_state:
  "state (main env inp GetRoute st) =
     fst (render inp (fst (submit env inp
        (case input_method inp of Coordinates \<Rightarrow> st\<lparr>destinations := []\<rparr> | PlaceName \<Rightarrow> st))))"
  by (simp add: main_def main_pass_def split_beta Let_def)

lemma run_after_successful_submit:
  assumes "2 \<le> length (fst (snd (collect_coords env inp st)))"
    and "get_route (router env) (fst (snd (collect_coords env inp st))) (show_alternatives inp)
           = (Some rs, es)"
  shows "routes (state (main env inp GetRoute st)) = list_sort duration_key rs
       \<and> selected_route_index (state (main env inp GetRoute st)) =
           (case radio_choice inp of Some c \<Rightarrow> (if c < length rs then c else 0) | None \<Rightarrow> 0)"
proof -
  let ?st0 = "case input_method inp of Coordinates \<Rightarrow> st\<lparr>destinations := []\<rparr> | PlaceName \<Rightarrow> st"
  let ?st2 = "fst (submit env inp ?st0)"
  have cs: "fst (snd (collect_coords env inp ?st0)) = fst (snd (collect_coords env inp st))"
    by (simp only: collect_coords_cleared_destinations)
  have s: "?st2 = (fst (collect_coords env inp ?st0))
             \<lparr>routes := list_sort duration_key rs, selected_route_index := 0,
              all_coords := Some (fst (snd (collect_coords env inp ?st0)))\<rparr>"
    by (rule submit_success) (simp_all only: cs assms)
  from assms(2) have ne: "rs \<noteq> []" by (rule get_route_nonempty)
  have r: "routes ?st2 = list_sort duration_key rs" and i: "selected_route_index ?st2 = 0"
    and c: "all_coords ?st2 \<noteq> None"
    by (simp_all add: s)
  have p: "all_places ?st2 \<noteq> None"
    by (simp add: s collect_coords_all_places)
  have rne: "routes ?st2 \<noteq> []" by (simp add: r list_sort_Nil_iff ne)
  have v: "selected_route_index ?st2 < length (routes ?st2)"
    using rne by (simp add: i)
  have l: "length (routes ?st2) = length rs" by (simp add: r length_list_sort)
  note rs = render_state[OF rne c p v, of inp]
  have a: "routes (fst (render inp ?st2)) = list_sort duration_key rs"
    by (simp add: render_routes r)
  have b: "selected_route_index (fst (render inp ?st2)) =
           (case radio_choice inp of Some c \<Rightarrow> (if c < length rs then c else 0) | None \<Rightarrow> 0)"
  proof (cases "1 < length rs")
    case True
    then show ?thesis by (simp add: rs l i split: option.splits)
  next
    case False
    with ne have "length rs = 1" by (cases rs) simp_all
    then show ?thesis by (auto simp: rs l i split: option.splits)
  qed
  from a b show ?thesis by (simp only: main_GetRoute_state)
qed

text \<open>
  C5, as the claim states it, fails twice. After a submit that three routes answer, the
  pick of the third route and a submit whose routing request fails, the stored route set
  is empty and the selected index is still 2, which is no index of the empty set. And
  when, after the same pick, the routing request of the next submit succeeds with three
  new routes while the route selector still holds the pick, the run ends with the new
  route set stored and the selected index 2, not 0.
\<close>

theorem selected_index_not_reset:
  "reachable (run_all example_runs initial_state)
   \<and> routes (run_all example_runs initial_state) = []
   \<and> selected_route_index (run_all example_runs initial_state) = 2
   \<and> \<not> selected_route_index (run_all example_runs initial_state)
         < length (routes (run_all example_runs initial_state))
   \<and> reachable (run_all example_runs_retained initial_state)
   \<and> map geometry (routes (run_all (take 2 example_runs) initial_state)) = [''b'', ''c'', ''a'']
   \<and> map geometry (routes (run_all example_runs_retained initial_state)) = [''d'', ''e'', ''f'']
   \<and> selected_route_index (run_all example_runs_retained initial_state) = 2"
proof -
  note defs = example_runs_retained_def example_runs_def example_env_def example_inputs_def
    example_route_def initial_state_def main_def main_pass_def submit_def collect_coords_def
    fetch_routes_def get_route_def render_def radio_def list_sort_def duration_key_def
    trip_estimation_def py_truediv_def Let_def
  have r: "reachable (run_all example_runs initial_state)"
    by (rule reachable_run_all) (rule reachable_initial)
  have r': "reachable (run_all example_runs_retained initial_state)"
    by (rule reachable_run_all) (rule reachable_initial)
  have e: "routes (run_all example_runs initial_state) = []
         \<and> selected_route_index (run_all example_runs initial_state) = 2"
    by (simp add: defs)
  have f: "map geometry (routes (run_all (take 2 example_runs) initial_state)) = [''b'', ''c'', ''a'']"
    by (simp add: defs)
  have g: "map geometry (routes (run_all example_runs_retained initial_state)) = [''d'', ''e'', ''f'']
         \<and> selected_route_index (run_all example_runs_retained initial_state) = 2"
    by (simp add: defs)
  from r r' e f g show ?thesis by simp
qed

text \<open>
  C5, amended: in every reachable session state with a route set that is not empty, the
  selected index is an index of that set. When the routing request of a submit succeeds,
  the handler stores the sorted new route set with the selected index 0, whatever the
  selection was before; the route selector, drawn later in the same run, then writes its
  value to the index, so that the run ends with the index 0 when the selector holds no
  pick or a pick that is no index of the new set, and with the held pick otherwise.
\<close>

theorem selected_index_valid_for_stored_routes:
  assumes "reachable st"
  shows "(routes st \<noteq> [] \<longrightarrow> selected_route_index st < length (routes st))
       \<and> (\<forall>(env::environment) (inp::inputs) rs es.
            2 \<le> length (fst (snd (collect_coords env inp st)))
            \<and> get_route (router env) (fst (snd (collect_coords env inp st)))
                 (show_alternatives inp) = (Some rs, es) \<longrightarrow>
              routes (fst (submit env inp st)) = list_sort duration_key rs
              \<and> selected_route_index (fst (submit env inp st)) = 0
              \<and> routes (state (main env inp GetRoute st)) = list_sort duration_key rs
              \<and> selected_route_index (state (main env inp GetRoute st)) =
                  (case radio_choice inp of
                     Some c \<Rightarrow> (if c < length rs then c else 0)
                   | None \<Rightarrow> 0)
              \<and> selected_route_index (state (main env inp GetRoute st))
                  < length (routes (state (main env inp GetRoute st))))"
proof -
  from assms have "index_valid st" by (rule reachable_index_valid)
  then have 1: "routes st \<noteq> [] \<longrightarrow> selected_route_index st < length (routes st)"
    by (auto simp: index_valid_def)
  have 2: "\<forall>(env::environment) (inp::inputs) rs es.
            2 \<le> length (fst (snd (collect_coords env inp st)))
            \<and> get_route (router env) (fst (snd (collect_coords env inp st)))
                 (show_alternatives inp) = (Some rs, es) \<longrightarrow>
              routes (fst (submit env inp st)) = list_sort duration_key rs
              \<and> selected_route_index (fst (submit env inp st)) = 0
              \<and> routes (state (main env inp GetRoute st)) = list_sort duration_key rs
              \<and> selected_route_index (state (main env inp GetRoute st)) =
                  (case radio_choice inp of
                     Some c \<Rightarrow> (if c < length rs then c else 0)
                   | None \<Rightarrow> 0)
              \<and> selected_route_index (state (main env inp GetRoute st))
                  < length (routes (state (main env inp GetRoute st)))"
  proof (intro allI impI)
    fix env :: environment and inp :: inputs and rs es
    assume h: "2 \<le> length (fst (snd (collect_coords env inp st)))
            \<and> get_route (router env) (fst (snd (collect_coords env inp st)))
                 (show_alternatives inp) = (Some rs, es)"
    then have h1: "2 \<le> length (fst (snd (collect_coords env inp st)))"
      and h2: "get_route (router env) (fst (snd (collect_coords env inp st)))
                 (show_alternatives inp) = (Some rs, es)"
      by simp_all
    from h2 have ne: "rs \<noteq> []" by (rule get_route_nonempty)
    have a: "routes (fst (submit env inp st)) = list_sort duration_key rs"
      "selected_route_index (fst (submit env inp st)) = 0"
      by (simp_all add: submit_success[OF h1 h2])
    note b = run_after_successful_submit[OF h1 h2]
    have "reachable (state (main env inp GetRoute st))"
      using assms by (rule reachable_run)
    then have "index_valid (state (main env inp GetRoute st))"
      by (rule reachable_index_valid)
    with b ne have c: "selected_route_index (state (main env inp GetRoute st))
                  < length (routes (state (main env inp GetRoute st)))"
      by (auto simp: index_valid_def list_sort_Nil_iff)
    from a b c
    show "routes (fst (submit env inp st)) = list_sort duration_key rs
              \<and> selected_route_index (fst (submit env inp st)) = 0
              \<and> routes (state (main env inp GetRoute st)) = list_sort duration_key rs
              \<and> selected_route_index (state (main env inp GetRoute st)) =
                  (case radio_choice inp of
                     Some c \<Rightarrow> (if c < length rs then c else 0)
                   | None \<Rightarrow> 0)
              \<and> selected_route_index (state (main env inp GetRoute st))
                  < length (routes (state (main env inp GetRoute st)))"
      by simp
  qed
  from 1 2 show ?thesis by (intro conjI)
qed

theorem selected_index_valid_for_stored_routes_witness:
  "reachable (run_all (take 2 example_runs) initial_state)
   \<and> map geometry (routes (run_all (take 2 example_runs) initial_state)) = [''b'', ''c'', ''a'']
   \<and> selected_route_index (run_all (take 2 example_runs) initial_state) = 2
   \<and> selected_route_index (run_all (take 2 example_runs) initial_state)
       < length (routes (run_all (take 2 example_runs) initial_state))
   \<and> selected_route_index
        (fst (submit (example_env (RouteData (Some [example_route ''e'' 60, example_route ''d'' 50])))
               example_inputs (run_all (take 2 example_runs) initial_state))) = 0
   \<and> map geometry (routes (state
        (main (example_env (RouteData (Some [example_route ''e'' 60, example_route ''d'' 50])))
              example_inputs GetRoute (run_all (take 2 example_runs) initial_state))))
       = [''d'', ''e'']
   \<and> selected_route_index (state
        (main (example_env (RouteData (Some [example_route ''e'' 60, example_route ''d'' 50])))
              example_inputs GetRoute (run_all (take 2 example_runs) initial_state))) = 0
   \<and> selected_route_index (state
        (main (example_env (RouteData (Some [example_route ''e'' 60, example_route ''d'' 50])))
              (example_inputs\<lparr>radio_choice := Some 1\<rparr>) GetRoute
              (run_all (take 2 example_runs) initial_state))) = 1"
proof -
  let ?st = "run_all (take 2 example_runs) initial_state"
  let ?rs = "[example_route ''e'' 60, example_route ''d'' 50]"
  let ?env = "example_env (RouteData (Some ?rs))"
  let ?cs = "[(139, 35), (140, 36)] :: coord list"
  let ?pick = "example_inputs\<lparr>radio_choice := Some 1\<rparr>"
  have r: "reachable ?st"
    by (rule reachable_run_all) (rule reachable_initial)
  note t = selected_index_valid_for_stored_routes[OF r]
  have e: "map geometry (routes ?st) = [''b'', ''c'', ''a''] \<and> selected_route_index ?st = 2"
    by (simp add: example_runs_def example_env_def example_inputs_def example_route_def
        initial_state_def main_def main_pass_def submit_def collect_coords_def
        fetch_routes_def get_route_def render_def radio_def list_sort_def duration_key_def
        trip_estimation_def py_truediv_def Let_def)
  then have ne: "routes ?st \<noteq> []" by auto
  with t have v: "selected_route_index ?st < length (routes ?st)" by simp
  have cc: "fst (snd (collect_coords ?env example_inputs ?st)) = ?cs"
    "fst (snd (collect_coords ?env ?pick ?st)) = ?cs"
    by (simp_all add: collect_coords_def example_inputs_def)
  have g: "2 \<le> length (fst (snd (collect_coords ?env example_inputs ?st)))
         \<and> get_route (router ?env) (fst (snd (collect_coords ?env example_inputs ?st)))
             (show_alternatives example_inputs) = (Some ?rs, [RoutingRequest ?cs True])"
    unfolding cc by (simp add: get_route_def example_env_def example_inputs_def)
  have g': "2 \<le> length (fst (snd (collect_coords ?env ?pick ?st)))
         \<and> get_route (router ?env) (fst (snd (collect_coords ?env ?pick ?st)))
             (show_alternatives ?pick) = (Some ?rs, [RoutingRequest ?cs True])"
    unfolding cc by (simp add: get_route_def example_env_def example_inputs_def)
  note u = t[THEN conjunct2, THEN spec, THEN spec, THEN spec, THEN spec, THEN mp, OF g]
  note u' = t[THEN conjunct2, THEN spec, THEN spec, THEN spec, THEN spec, THEN mp, OF g']
  have srt: "list_sort duration_key ?rs = [example_route ''d'' 50, example_route ''e'' 60]"
    by (simp add: list_sort_def duration_key_def example_route_def)
  have n: "radio_choice example_inputs = None" by (simp add: example_inputs_def)
  from u have z1: "selected_route_index (fst (submit ?env example_inputs ?st)) = 0" by simp
  from u srt have z2: "map geometry (routes (state (main ?env example_inputs GetRoute ?st)))
      = [''d'', ''e'']"
    by (simp add: example_route_def)
  from u n have z3: "selected_route_index (state (main ?env example_inputs GetRoute ?st)) = 0"
    by simp
  from u' have z4: "selected_route_index (state (main ?env ?pick GetRoute ?st)) = 1"
    by simp
  from r e v z1 z2 z3 z4 show ?thesis by simp
qed

end
